theory Spec2Isabelle
  imports Main "HOL-Library.Word"
begin

section \<open>Field data materialisation and memory mapping (common/Utils.h)\<close>

text \<open>
  A shallow embedding of \<^verbatim>\<open>GetDataSize\<close>, \<^verbatim>\<open>FillField\<close>,
  \<^verbatim>\<open>WriteFieldData\<close> and \<^verbatim>\<open>CreateMap\<close> of
  \<^verbatim>\<open>internal/core/src/common/Utils.h\<close>.

  Machine integers are words: \<^verbatim>\<open>size_t\<close> and \<^verbatim>\<open>ssize_t\<close> are
  both \<^typ>\<open>64 word\<close> (the same 64 bits; \<open>sint\<close> reads the signed value, \<open>unat\<close>
  the unsigned one), so that the mixed comparisons of the source, which C++ performs
  after converting the signed operand to \<^verbatim>\<open>size_t\<close>, are comparisons of words.
  Memory and file contents are lists of bytes.
\<close>

type_synonym byte = "8 word"
type_synonym size_t = "64 word"
type_synonym ssize_t = "64 word"

subsection \<open>Data model\<close>

text \<open>
  Modelled from the spec: the enumeration \<^verbatim>\<open>DataType\<close> of the logical types is
  declared outside this file. The constructors are the enumerators this file names;
  \<open>OTHER\<close> stands for every enumerator it does not name (the \<^verbatim>\<open>default:\<close>
  branches of its switches).
\<close>

datatype DataType =
    BOOL | INT8 | INT16 | INT32 | INT64 | FLOAT | DOUBLE
  | STRING | VARCHAR | VECTOR_BINARY | VECTOR_FLOAT
  | OTHER nat

text \<open>
  Modelled from the spec: \<^verbatim>\<open>datatype_is_variable\<close> is declared outside this file.
  The spec's data model has one variable-width kind, the string; this file handles its
  two enumerators \<^verbatim>\<open>VARCHAR\<close> and \<^verbatim>\<open>STRING\<close> in the variable-width branch
  of \<^verbatim>\<open>GetDataSize\<close>.
\<close>

definition datatype_is_variable :: "DataType \<Rightarrow> bool" where
  "datatype_is_variable data_type = (data_type = VARCHAR \<or> data_type = STRING)"

text \<open>
  Modelled from the spec: the Column Descriptor \<^verbatim>\<open>FieldMeta\<close> is declared outside
  this file. It identifies the field's logical type and carries the per-element byte
  width of a field of one of the enumerated kinds (for a string field, the width the
  descriptor declares for it). The accessor \<^verbatim>\<open>get_sizeof\<close>, defined below with the
  errors, gives that width for the enumerated kinds only.
\<close>

record FieldMeta =
  get_data_type :: DataType
  element_width :: size_t

text \<open>
  Modelled from the spec: the Source Record Batch \<^verbatim>\<open>DataArray\<close> is a generated
  protobuf message declared outside this file, a tagged container with one case per
  logical type. Integers of 8, 16 and 32 bits share the 32-bit case \<open>IntData\<close>. A
  float or double element is its IEEE-754 bit pattern: the code only copies it. An
  accessor of a case that is not the one set returns the empty default, as the
  generated accessors do.
\<close>

datatype ScalarField =
    BoolData "bool list"
  | IntData "32 word list"
  | LongData "64 word list"
  | FloatData "32 word list"
  | DoubleData "64 word list"
  | StringData "string list"
  | ScalarNotSet

datatype VectorField =
    FloatVector "32 word list"
  | BinaryVector "byte list"
  | VectorNotSet

datatype DataArray =
    Scalars ScalarField
  | Vectors VectorField
  | FieldNotSet

definition scalars :: "DataArray \<Rightarrow> ScalarField" where
  "scalars d = (case d of Scalars s \<Rightarrow> s | _ \<Rightarrow> ScalarNotSet)"

definition vectors :: "DataArray \<Rightarrow> VectorField" where
  "vectors d = (case d of Vectors v \<Rightarrow> v | _ \<Rightarrow> VectorNotSet)"

definition bool_data :: "ScalarField \<Rightarrow> bool list" where
  "bool_data s = (case s of BoolData xs \<Rightarrow> xs | _ \<Rightarrow> [])"

definition int_data :: "ScalarField \<Rightarrow> 32 word list" where
  "int_data s = (case s of IntData xs \<Rightarrow> xs | _ \<Rightarrow> [])"

definition long_data :: "ScalarField \<Rightarrow> 64 word list" where
  "long_data s = (case s of LongData xs \<Rightarrow> xs | _ \<Rightarrow> [])"

definition float_data :: "ScalarField \<Rightarrow> 32 word list" where
  "float_data s = (case s of FloatData xs \<Rightarrow> xs | _ \<Rightarrow> [])"

definition double_data :: "ScalarField \<Rightarrow> 64 word list" where
  "double_data s = (case s of DoubleData xs \<Rightarrow> xs | _ \<Rightarrow> [])"

definition string_data :: "ScalarField \<Rightarrow> string list" where
  "string_data s = (case s of StringData xs \<Rightarrow> xs | _ \<Rightarrow> [])"

definition float_vector :: "VectorField \<Rightarrow> 32 word list" where
  "float_vector v = (case v of FloatVector xs \<Rightarrow> xs | _ \<Rightarrow> [])"

definition binary_vector :: "VectorField \<Rightarrow> byte list" where
  "binary_vector v = (case v of BinaryVector xs \<Rightarrow> xs | _ \<Rightarrow> [])"

text \<open>
  A path is the list of its components: \<^verbatim>\<open>operator/\<close> appends one,
  \<^verbatim>\<open>parent_path\<close> drops the last.
\<close>

type_synonym path = "string list"

text \<open>
  Modelled from the spec: the Load Request \<^verbatim>\<open>LoadFieldDataInfo\<close> is declared outside
  this file. \<open>mmap_dir_path\<close> is \<open>None\<close> for the null pointer. \<open>row_count\<close>
  is a 64-bit integer that both of its uses convert to \<^verbatim>\<open>size_t\<close>.
\<close>

record LoadFieldDataInfo =
  field_id :: int
  field_data :: DataArray
  row_count :: size_t
  mmap_dir_path :: "path option"

text \<open>
  Every \<^verbatim>\<open>PanicInfo\<close>, every failing \<^verbatim>\<open>AssertInfo\<close> and the exception of
  \<^verbatim>\<open>create_directories\<close> is a value of this type. \<open>FailedWrite\<close> carries the
  path and the two numbers its message prints (written, total). \<open>BufferOverrun\<close>
  stands for a copy that reads past the end of its source or writes past the end of its
  destination, which the source leaves undefined. \<open>UnsupportedDataType\<close> is the
  error of \<^verbatim>\<open>get_sizeof\<close>.
\<close>

datatype error =
    NotSupportedDataType DataType
  | UnsupportedDataType DataType
  | Unsupported
  | FailedAnonMap
  | FailedCreateDirectories path
  | FailedCreateFile path
  | FailedWrite path ssize_t size_t
  | FailedFsync path
  | FailedMap path
  | FailedUnlink path
  | FailedClose path
  | BufferOverrun

text \<open>
  Modelled from the spec: \<^verbatim>\<open>FieldMeta::get_sizeof\<close> is declared outside this file.
  The spec gives a per-element byte width to the enumerated kinds only, and has sizing
  signal an unsupported-type error for any logical type outside them.
\<close>

definition get_sizeof :: "FieldMeta \<Rightarrow> error + size_t" where
  "get_sizeof field =
     (case get_data_type field of
        OTHER k \<Rightarrow> Inl (UnsupportedDataType (OTHER k))
      | _ \<Rightarrow> Inr (element_width field))"

subsection \<open>GetDataSize\<close>

text \<open>
  The loop of the string branch adds the \<^verbatim>\<open>size()\<close> of every element to a
  \<^verbatim>\<open>ssize_t\<close> that starts at 0.
\<close>

fun string_sizes :: "ssize_t \<Rightarrow> string list \<Rightarrow> ssize_t" where
  "string_sizes sz [] = sz"
| "string_sizes sz (s # ss) = string_sizes (sz + of_nat (length s)) ss"

definition GetDataSize :: "FieldMeta \<Rightarrow> size_t \<Rightarrow> DataArray \<Rightarrow> error + size_t" where
  "GetDataSize field rows data =
     (let data_type = get_data_type field in
      if datatype_is_variable data_type then
        (case data_type of
           VARCHAR \<Rightarrow> Inr (string_sizes 0 (string_data (scalars data)))
         | STRING \<Rightarrow> Inr (string_sizes 0 (string_data (scalars data)))
         | _ \<Rightarrow> Inl (NotSupportedDataType data_type))
      else
        (case get_sizeof field of
           Inl e \<Rightarrow> Inl e
         | Inr width \<Rightarrow> Inr (width * rows)))"

subsection \<open>Byte images of the source arrays\<close>

text \<open>
  What the pointer handed to \<^verbatim>\<open>memcpy\<close> or \<^verbatim>\<open>write\<close> points to, byte by
  byte. Multi-byte elements are laid out least significant byte first, the byte order of
  the x86-64 and AArch64 targets. A \<^verbatim>\<open>bool\<close> is one byte, 0 or 1.
\<close>

definition bytes_of_bool :: "bool \<Rightarrow> byte list" where
  "bytes_of_bool b = [if b then 1 else 0]"

definition bytes_of_int8 :: "8 word \<Rightarrow> byte list" where
  "bytes_of_int8 x = [x]"

definition bytes_of_int16 :: "16 word \<Rightarrow> byte list" where
  "bytes_of_int16 x = [ucast x, ucast (drop_bit 8 x)]"

definition bytes_of_word32 :: "32 word \<Rightarrow> byte list" where
  "bytes_of_word32 x =
     [ucast x, ucast (drop_bit 8 x), ucast (drop_bit 16 x), ucast (drop_bit 24 x)]"

definition bytes_of_word64 :: "64 word \<Rightarrow> byte list" where
  "bytes_of_word64 x =
     [ucast x, ucast (drop_bit 8 x), ucast (drop_bit 16 x), ucast (drop_bit 24 x),
      ucast (drop_bit 32 x), ucast (drop_bit 40 x), ucast (drop_bit 48 x),
      ucast (drop_bit 56 x)]"

definition bytes_of_string :: "string \<Rightarrow> byte list" where
  "bytes_of_string s = map of_char s"

text \<open>
  \<^verbatim>\<open>std::vector<int8_t> data_raw(n); std::copy_n(src, n, data_raw.data())\<close> assigns
  each 32-bit element to an 8-bit one (16-bit for \<^verbatim>\<open>int16_t\<close>): the value modulo
  \<open>2 ^ 8\<close> (\<open>2 ^ 16\<close>), which is \<open>ucast\<close>.
\<close>

definition narrow_int8 :: "32 word list \<Rightarrow> 8 word list" where
  "narrow_int8 src_data = map ucast src_data"

definition narrow_int16 :: "32 word list \<Rightarrow> 16 word list" where
  "narrow_int16 src_data = map ucast src_data"

subsection \<open>FillField\<close>

text \<open>
  \<open>store mem dest bs\<close> is the memory region \<open>mem\<close> after the bytes \<open>bs\<close> are
  written at offset \<open>dest\<close>. \<open>memcpy dst src n\<close> copies the first \<open>n\<close> bytes
  of the array \<open>src\<close> to the start of the region \<open>dst\<close>; the updated region stands
  for the pointer the source returns. A byte count is a natural number here: the
  \<open>unat\<close> of a \<^verbatim>\<open>size_t\<close> argument, the length of a string.
\<close>

definition store :: "byte list \<Rightarrow> nat \<Rightarrow> byte list \<Rightarrow> error + byte list" where
  "store mem dest bs =
     (if dest + length bs \<le> length mem
      then Inr (take dest mem @ bs @ drop (dest + length bs) mem)
      else Inl BufferOverrun)"

definition memcpy :: "byte list \<Rightarrow> byte list \<Rightarrow> nat \<Rightarrow> error + byte list" where
  "memcpy dst src n =
     (if n \<le> length src then store dst 0 (take n src) else Inl BufferOverrun)"

text \<open>The loop of the \<^verbatim>\<open>VARCHAR\<close> case; \<open>dest\<close> is the offset of the moving pointer.\<close>

fun copy_strings :: "byte list \<Rightarrow> nat \<Rightarrow> string list \<Rightarrow> error + byte list" where
  "copy_strings mem dest [] = Inr mem"
| "copy_strings mem dest (s # ss) =
     (case store mem dest (bytes_of_string s) of
        Inl e \<Rightarrow> Inl e
      | Inr mem' \<Rightarrow> copy_strings mem' (dest + length s) ss)"

text \<open>
  The byte array of \<^verbatim>\<open>binary_vector\<close> is that of a \<^verbatim>\<open>std::string\<close>, which
  ends with a zero byte after its contents.
\<close>

definition FillField ::
  "DataType \<Rightarrow> size_t \<Rightarrow> LoadFieldDataInfo \<Rightarrow> byte list \<Rightarrow> error + byte list" where
  "FillField data_type sz info dst =
     (let data = field_data info in
      case data_type of
        BOOL \<Rightarrow> memcpy dst (concat (map bytes_of_bool (bool_data (scalars data)))) (unat sz)
      | INT8 \<Rightarrow>
          memcpy dst (concat (map bytes_of_int8 (narrow_int8 (int_data (scalars data))))) (unat sz)
      | INT16 \<Rightarrow>
          memcpy dst (concat (map bytes_of_int16 (narrow_int16 (int_data (scalars data))))) (unat sz)
      | INT32 \<Rightarrow> memcpy dst (concat (map bytes_of_word32 (int_data (scalars data)))) (unat sz)
      | INT64 \<Rightarrow> memcpy dst (concat (map bytes_of_word64 (long_data (scalars data)))) (unat sz)
      | FLOAT \<Rightarrow> memcpy dst (concat (map bytes_of_word32 (float_data (scalars data)))) (unat sz)
      | DOUBLE \<Rightarrow> memcpy dst (concat (map bytes_of_word64 (double_data (scalars data)))) (unat sz)
      | VARCHAR \<Rightarrow> copy_strings dst 0 (string_data (scalars data))
      | VECTOR_FLOAT \<Rightarrow>
          memcpy dst (concat (map bytes_of_word32 (float_vector (vectors data)))) (unat sz)
      | VECTOR_BINARY \<Rightarrow> memcpy dst (binary_vector (vectors data) @ [0]) (unat sz)
      | _ \<Rightarrow> Inl Unsupported)"

subsection \<open>The operating system\<close>

text \<open>
  The state the system calls of \<^verbatim>\<open>CreateMap\<close> read and change: the directories,
  the directory entries (path to inode), the contents of every inode and the number of
  the next new one, the open file descriptors (index to inode, \<open>None\<close> once
  closed), the memory mappings (the address a mapping is returned at is its index), and
  the log of the calls made so far. The remaining fields are what the environment will
  do next: the outcomes of the coming \<^verbatim>\<open>write\<close> calls in order (a call past the
  end of the list writes its buffer in full), and whether each other call fails.
\<close>

datatype write_outcome = Complete | Partial nat | Failed

datatype syscall =
    SysCreateDirectories path
  | SysOpen path
  | SysWrite nat nat
  | SysFsync nat
  | SysMmapAnon nat
  | SysMmapFile nat nat
  | SysUnlink path
  | SysClose nat

datatype mapping = Anonymous "byte list" | FileBacked nat nat

record world =
  directories :: "path set"
  entries :: "path \<rightharpoonup> nat"
  inodes :: "nat \<Rightarrow> byte list"
  next_inode :: nat
  descriptors :: "nat option list"
  mappings :: "mapping list"
  syscalls :: "syscall list"
  write_script :: "write_outcome list"
  create_directories_fails :: bool
  open_fails :: bool
  fsync_fails :: bool
  mmap_fails :: bool
  unlink_fails :: bool
  close_fails :: bool

definition logged :: "syscall \<Rightarrow> world \<Rightarrow> world" where
  "logged c w = w\<lparr>syscalls := syscalls w @ [c]\<rparr>"

definition open_inode :: "world \<Rightarrow> nat \<Rightarrow> nat option" where
  "open_inode w fd = (if fd < length (descriptors w) then descriptors w ! fd else None)"

text \<open>A directory and the directories above it: the prefixes of its path.\<close>

fun ancestors :: "path \<Rightarrow> path list" where
  "ancestors [] = [[]]"
| "ancestors (c # cs) = [] # map ((#) c) (ancestors cs)"

definition sys_create_directories :: "path \<Rightarrow> world \<Rightarrow> bool \<times> world" where
  "sys_create_directories d w =
     (let w1 = logged (SysCreateDirectories d) w in
      if create_directories_fails w then (False, w1)
      else (True, w1\<lparr>directories := directories w \<union> set (ancestors d)\<rparr>))"

text \<open>
  \<^verbatim>\<open>open(path, O_CREAT | O_TRUNC | O_RDWR, ...)\<close>: an existing file is emptied, a
  missing one is created empty; the descriptor is a new index.
\<close>

definition sys_open :: "path \<Rightarrow> world \<Rightarrow> nat option \<times> world" where
  "sys_open p w =
     (let w1 = logged (SysOpen p) w; fd = length (descriptors w) in
      if open_fails w \<or> p \<in> directories w \<or> butlast p \<notin> directories w then (None, w1)
      else
        (case entries w p of
           Some ino \<Rightarrow>
             (Some fd, w1\<lparr>inodes := (inodes w)(ino := []),
                           descriptors := descriptors w @ [Some ino]\<rparr>)
         | None \<Rightarrow>
             (Some fd, w1\<lparr>entries := (entries w)(p \<mapsto> next_inode w),
                           inodes := (inodes w)(next_inode w := []),
                           next_inode := Suc (next_inode w),
                           descriptors := descriptors w @ [Some (next_inode w)]\<rparr>)))"

text \<open>
  \<^verbatim>\<open>write(fd, buf, count)\<close> appends to the file (the descriptor was opened on an
  emptied file and is only written through) as many bytes as the environment accepts
  and returns their number, or \<open>-1\<close> with nothing written.
\<close>

definition writes_complete :: "world \<Rightarrow> bool" where
  "writes_complete w = list_all (\<lambda>out. out = Complete) (write_script w)"

definition next_write :: "world \<Rightarrow> write_outcome \<times> world" where
  "next_write w =
     (case write_script w of
        [] \<Rightarrow> (Complete, w)
      | out # rest \<Rightarrow> (out, w\<lparr>write_script := rest\<rparr>))"

definition append_inode :: "nat \<Rightarrow> byte list \<Rightarrow> world \<Rightarrow> world" where
  "append_inode ino bs w = w\<lparr>inodes := (inodes w)(ino := inodes w ino @ bs)\<rparr>"

definition sys_write :: "nat \<Rightarrow> byte list \<Rightarrow> nat \<Rightarrow> world \<Rightarrow> error + (ssize_t \<times> world)" where
  "sys_write fd buf cnt w =
     (if length buf < cnt then Inl BufferOverrun
      else
        (let w1 = logged (SysWrite fd cnt) w in
         case open_inode w fd of
           None \<Rightarrow> Inr (- 1, w1)
         | Some ino \<Rightarrow>
             (let (out, w2) = next_write w1 in
              case out of
                Complete \<Rightarrow> Inr (of_nat cnt, append_inode ino (take cnt buf) w2)
              | Partial k \<Rightarrow>
                  Inr (of_nat (min k cnt), append_inode ino (take (min k cnt) buf) w2)
              | Failed \<Rightarrow> Inr (- 1, w2))))"

definition sys_fsync :: "nat \<Rightarrow> world \<Rightarrow> bool \<times> world" where
  "sys_fsync fd w =
     (let w1 = logged (SysFsync fd) w in
      (\<not> fsync_fails w \<and> open_inode w fd \<noteq> None, w1))"

text \<open>
  \<^verbatim>\<open>mmap\<close> fails when the environment says so, for a length of zero, and for a
  length of \<open>2 ^ 63\<close> bytes or more, which no address space holds.
\<close>

definition sys_mmap_anon :: "nat \<Rightarrow> world \<Rightarrow> nat option \<times> world" where
  "sys_mmap_anon n w =
     (let w1 = logged (SysMmapAnon n) w in
      if mmap_fails w \<or> n = 0 \<or> 2 ^ 63 \<le> n then (None, w1)
      else (Some (length (mappings w)),
            w1\<lparr>mappings := mappings w @ [Anonymous (replicate n 0)]\<rparr>))"

definition sys_mmap_file :: "nat \<Rightarrow> nat \<Rightarrow> world \<Rightarrow> nat option \<times> world" where
  "sys_mmap_file fd n w =
     (let w1 = logged (SysMmapFile fd n) w in
      if mmap_fails w \<or> n = 0 \<or> 2 ^ 63 \<le> n then (None, w1)
      else
        (case open_inode w fd of
           None \<Rightarrow> (None, w1)
         | Some ino \<Rightarrow>
             (Some (length (mappings w)), w1\<lparr>mappings := mappings w @ [FileBacked ino n]\<rparr>)))"

definition sys_unlink :: "path \<Rightarrow> world \<Rightarrow> bool \<times> world" where
  "sys_unlink p w =
     (let w1 = logged (SysUnlink p) w in
      if unlink_fails w \<or> entries w p = None then (False, w1)
      else (True, w1\<lparr>entries := (entries w)(p := None)\<rparr>))"

definition sys_close :: "nat \<Rightarrow> world \<Rightarrow> bool \<times> world" where
  "sys_close fd w =
     (let w1 = logged (SysClose fd) w in
      if close_fails w \<or> open_inode w fd = None then (False, w1)
      else (True, w1\<lparr>descriptors := (descriptors w)[fd := None]\<rparr>))"

subsection \<open>WriteFieldData\<close>

text \<open>
  The loop of the \<^verbatim>\<open>VARCHAR\<close> case. \<^verbatim>\<open>written < begin->size()\<close> compares a
  \<^verbatim>\<open>ssize_t\<close> with a \<^verbatim>\<open>size_t\<close>: C++ converts the left operand to
  \<^verbatim>\<open>size_t\<close>, which is the order of words.
\<close>

fun write_strings ::
  "nat \<Rightarrow> string list \<Rightarrow> ssize_t \<Rightarrow> world \<Rightarrow> error + (ssize_t \<times> world)" where
  "write_strings fd [] total_written w = Inr (total_written, w)"
| "write_strings fd (s # ss) total_written w =
     (case sys_write fd (bytes_of_string s) (length s) w of
        Inl e \<Rightarrow> Inl e
      | Inr (written, w') \<Rightarrow>
          if written < of_nat (length s) then Inr (total_written, w')
          else write_strings fd ss (total_written + written) w')"

definition WriteFieldData ::
  "nat \<Rightarrow> DataType \<Rightarrow> DataArray \<Rightarrow> size_t \<Rightarrow> world \<Rightarrow> error + (ssize_t \<times> world)" where
  "WriteFieldData fd data_type data sz w =
     (case data_type of
        BOOL \<Rightarrow> sys_write fd (concat (map bytes_of_bool (bool_data (scalars data)))) (unat sz) w
      | INT8 \<Rightarrow>
          sys_write fd (concat (map bytes_of_int8 (narrow_int8 (int_data (scalars data))))) (unat sz) w
      | INT16 \<Rightarrow>
          sys_write fd (concat (map bytes_of_int16 (narrow_int16 (int_data (scalars data))))) (unat sz) w
      | INT32 \<Rightarrow> sys_write fd (concat (map bytes_of_word32 (int_data (scalars data)))) (unat sz) w
      | INT64 \<Rightarrow> sys_write fd (concat (map bytes_of_word64 (long_data (scalars data)))) (unat sz) w
      | FLOAT \<Rightarrow> sys_write fd (concat (map bytes_of_word32 (float_data (scalars data)))) (unat sz) w
      | DOUBLE \<Rightarrow> sys_write fd (concat (map bytes_of_word64 (double_data (scalars data)))) (unat sz) w
      | VARCHAR \<Rightarrow> write_strings fd (string_data (scalars data)) 0 w
      | VECTOR_FLOAT \<Rightarrow>
          sys_write fd (concat (map bytes_of_word32 (float_vector (vectors data)))) (unat sz) w
      | VECTOR_BINARY \<Rightarrow> sys_write fd (binary_vector (vectors data) @ [0]) (unat sz) w
      | _ \<Rightarrow> Inl Unsupported)"

subsection \<open>CreateMap\<close>

text \<open>\<^verbatim>\<open>std::to_string\<close> of a 64-bit integer: its decimal digits, after a minus sign
  when it is negative.\<close>

fun digits :: "nat \<Rightarrow> string" where
  "digits n =
     (if n < 10 then [''0123456789'' ! n]
      else digits (n div 10) @ [''0123456789'' ! (n mod 10)])"

declare digits.simps [simp del]

definition to_string :: "int \<Rightarrow> string" where
  "to_string i = (if i < 0 then CHR ''-'' # digits (nat (- i)) else digits (nat i))"

text \<open>
  The anonymous path. The result is the returned pointer (\<open>None\<close> for
  \<^verbatim>\<open>nullptr\<close>, \<open>Some a\<close> for the mapping at index \<open>a\<close>) or the fatal error,
  together with the state the call leaves.
\<close>

definition CreateMap_anonymous ::
  "FieldMeta \<Rightarrow> LoadFieldDataInfo \<Rightarrow> world \<Rightarrow> (error + nat option) \<times> world" where
  "CreateMap_anonymous field_meta info w =
     (let data_type = get_data_type field_meta in
      case GetDataSize field_meta (row_count info) (field_data info) of
        Inl e \<Rightarrow> (Inl e, w)
      | Inr data_size \<Rightarrow>
          if data_size = 0 then (Inr None, w)
          else
            (case sys_mmap_anon (unat data_size) w of
               (None, w1) \<Rightarrow> (Inl FailedAnonMap, w1)
             | (Some a, w1) \<Rightarrow>
                 (case FillField data_type data_size info (replicate (unat data_size) 0) of
                    Inl e \<Rightarrow> (Inl e, w1)
                  | Inr mem \<Rightarrow> (Inr (Some a), w1\<lparr>mappings := (mappings w1)[a := Anonymous mem]\<rparr>))))"

text \<open>
  The file-backed path. The loop that touches one byte per page where
  \<^verbatim>\<open>MAP_POPULATE\<close> is missing only reads, and has no counterpart here.
\<close>

definition CreateMap_file ::
  "path \<Rightarrow> int \<Rightarrow> FieldMeta \<Rightarrow> LoadFieldDataInfo \<Rightarrow> world \<Rightarrow> (error + nat option) \<times> world" where
  "CreateMap_file mmap_dir segment_id field_meta info w =
     (let filepath = mmap_dir @ [to_string segment_id, to_string (field_id info)];
          dir = butlast filepath;
          (created, w1) = sys_create_directories dir w in
      if \<not> created then (Inl (FailedCreateDirectories dir), w1)
      else
        (case sys_open filepath w1 of
           (None, w2) \<Rightarrow> (Inl (FailedCreateFile filepath), w2)
         | (Some fd, w2) \<Rightarrow>
             (let data_type = get_data_type field_meta in
              case get_sizeof field_meta of
                Inl e \<Rightarrow> (Inl e, w2)
              | Inr width \<Rightarrow>
                 (let sz = width * row_count info in
                  case WriteFieldData fd data_type (field_data info) sz w2 of
                    Inl e \<Rightarrow> (Inl e, w2)
                  | Inr (written, w3) \<Rightarrow>
                      if \<not> (written = sz \<or>
                            written \<noteq> - 1 \<and> datatype_is_variable (get_data_type field_meta))
                      then (Inl (FailedWrite filepath written sz), w3)
                      else
                        (let (synced, w4) = sys_fsync fd w3 in
                         if \<not> synced then (Inl (FailedFsync filepath), w4)
                         else if written = 0 then (Inr None, w4)
                         else
                           (case sys_mmap_file fd (unat written) w4 of
                              (None, w5) \<Rightarrow> (Inl (FailedMap filepath), w5)
                            | (Some a, w5) \<Rightarrow>
                                (let (unlinked, w6) = sys_unlink filepath w5 in
                                 if \<not> unlinked then (Inl (FailedUnlink filepath), w6)
                                 else
                                   (let (closed, w7) = sys_close fd w6 in
                                    if \<not> closed then (Inl (FailedClose filepath), w7)
                                    else (Inr (Some a), w7)))))))))"

definition CreateMap ::
  "int \<Rightarrow> FieldMeta \<Rightarrow> LoadFieldDataInfo \<Rightarrow> world \<Rightarrow> (error + nat option) \<times> world" where
  "CreateMap segment_id field_meta info w =
     (case mmap_dir_path info of
        None \<Rightarrow> CreateMap_anonymous field_meta info w
      | Some mmap_dir \<Rightarrow> CreateMap_file mmap_dir segment_id field_meta info w)"

subsection \<open>States used in the examples\<close>

text \<open>
  A state with the root directory only, no file, no open descriptor and no mapping, in
  which no call fails; and the bytes a mapping shows: those of an anonymous mapping,
  or the first bytes of the file behind a file-backed one.
\<close>

definition empty_world :: world where
  "empty_world =
     \<lparr>directories = {[]}, entries = Map.empty, inodes = (\<lambda>ino. []), next_inode = 0,
      descriptors = [], mappings = [],
      syscalls = [], write_script = [], create_directories_fails = False,
      open_fails = False, fsync_fails = False, mmap_fails = False, unlink_fails = False,
      close_fails = False\<rparr>"

definition mapped_bytes :: "world \<Rightarrow> nat \<Rightarrow> byte list" where
  "mapped_bytes w a =
     (case mappings w ! a of
        Anonymous bs \<Rightarrow> bs
      | FileBacked ino n \<Rightarrow> take n (inodes w ino))"

section \<open>Properties\<close>

subsection \<open>The size calculation\<close>

lemma string_sizes_sum:
  "string_sizes sz ss = sz + of_nat (sum_list (map length ss))"
  by (induction ss arbitrary: sz) (simp_all add: add.assoc)

lemma unat_size_of_nat: "unat (of_nat n :: 64 word) = n mod 2 ^ 64"
  by (simp add: unat_of_nat)

lemma get_sizeof_Inr:
  "get_sizeof field = Inr width \<longleftrightarrow>
     (\<forall>k. get_data_type field \<noteq> OTHER k) \<and> width = element_width field"
  by (cases "get_data_type field") (auto simp: get_sizeof_def)

lemma get_sizeof_Inl:
  "get_sizeof field = Inl e \<longleftrightarrow>
     (\<exists>k. get_data_type field = OTHER k \<and> e = UnsupportedDataType (OTHER k))"
  by (cases "get_data_type field") (auto simp: get_sizeof_def)

text \<open>
  Claim C1. For a column descriptor that is not variable-width and a row count \<open>N\<close>,
  \<open>GetDataSize\<close> returns \<open>N\<close> times the descriptor's per-element byte width, the
  width that \<open>get_sizeof\<close> returns for it; the product is that of \<^verbatim>\<open>size_t\<close>, the
  product of the two numbers modulo \<open>2 ^ 64\<close>. Every enumerated type has such a width,
  the one its descriptor carries. For a \<open>VARCHAR\<close> or \<open>STRING\<close> column
  \<open>GetDataSize\<close> returns the sum of the byte lengths of the batch's string elements
  (in the same arithmetic), whatever the row count is.
\<close>

theorem GetDataSize_size:
  "(\<not> datatype_is_variable (get_data_type field) \<and> get_sizeof field = Inr width \<longrightarrow>
      GetDataSize field rows data = Inr (width * rows) \<and>
      unat (width * rows) = (unat rows * unat width) mod 2 ^ 64) \<and>
   (get_data_type field \<in> {BOOL, INT8, INT16, INT32, INT64, FLOAT, DOUBLE,
                            VECTOR_FLOAT, VECTOR_BINARY} \<longrightarrow>
      \<not> datatype_is_variable (get_data_type field) \<and>
      get_sizeof field = Inr (element_width field) \<and>
      GetDataSize field rows data = Inr (element_width field * rows)) \<and>
   (get_data_type field = VARCHAR \<or> get_data_type field = STRING \<longrightarrow>
      (\<exists>r. (\<forall>rows'. GetDataSize field rows' data = Inr r) \<and>
           unat r = sum_list (map length (string_data (scalars data))) mod 2 ^ 64))"
proof (intro conjI impI)
  assume "\<not> datatype_is_variable (get_data_type field) \<and> get_sizeof field = Inr width"
  then show "GetDataSize field rows data = Inr (width * rows)"
    by (simp add: GetDataSize_def)
next
  show "unat (width * rows) = (unat rows * unat width) mod 2 ^ 64"
    by (simp add: unat_word_ariths mult.commute)
next
  assume enum: "get_data_type field \<in> {BOOL, INT8, INT16, INT32, INT64, FLOAT, DOUBLE,
    VECTOR_FLOAT, VECTOR_BINARY}"
  then show fixed: "\<not> datatype_is_variable (get_data_type field)"
    by (auto simp: datatype_is_variable_def)
  from enum show width: "get_sizeof field = Inr (element_width field)"
    by (auto simp: get_sizeof_def)
  from fixed width show "GetDataSize field rows data = Inr (element_width field * rows)"
    by (simp add: GetDataSize_def)
next
  assume str: "get_data_type field = VARCHAR \<or> get_data_type field = STRING"
  let ?r = "of_nat (sum_list (map length (string_data (scalars data)))) :: 64 word"
  from str have "\<forall>rows'. GetDataSize field rows' data = Inr ?r"
    by (auto simp: GetDataSize_def datatype_is_variable_def string_sizes_sum)
  moreover have "unat ?r = sum_list (map length (string_data (scalars data))) mod 2 ^ 64"
    by (rule unat_size_of_nat)
  ultimately show "\<exists>r. (\<forall>rows'. GetDataSize field rows' data = Inr r) \<and>
      unat r = sum_list (map length (string_data (scalars data))) mod 2 ^ 64"
    by blast
qed

theorem GetDataSize_size_witness:
  "GetDataSize \<lparr>get_data_type = INT32, element_width = 4\<rparr> 3 (Scalars (IntData [7, 8, 9])) = Inr 12 \<and>
   (\<exists>r. GetDataSize \<lparr>get_data_type = VARCHAR, element_width = 16\<rparr> 3
          (Scalars (StringData [''ab'', '''', ''cde''])) = Inr r \<and> unat r = 5)"
  using GetDataSize_size [of "\<lparr>get_data_type = INT32, element_width = 4\<rparr>" 4 3 "Scalars (IntData [7, 8, 9])"]
    GetDataSize_size [of "\<lparr>get_data_type = VARCHAR, element_width = 16\<rparr>" 16 3
      "Scalars (StringData [''ab'', '''', ''cde''])"]
  by (auto simp: datatype_is_variable_def scalars_def string_data_def get_sizeof_def)

text \<open>
  Claim C6. For every logical type outside the enumerated set \<open>GetDataSize\<close> signals
  an unsupported-type error rather than returning a size, and it signals an error for
  no other type. The error is the one of \<open>get_sizeof\<close>: a type outside the enumerated
  set is not variable-width, so \<open>GetDataSize\<close> asks the descriptor for its
  per-element width, and the descriptor has none. The unsupported-type error of
  \<open>GetDataSize\<close> itself, the default of the switch inside its variable-width branch,
  is never signalled.
\<close>

theorem GetDataSize_unsupported_type:
  "(get_data_type field = OTHER k \<longrightarrow>
      GetDataSize field rows data = Inl (UnsupportedDataType (OTHER k))) \<and>
   ((\<exists>e. GetDataSize field rows data = Inl e) \<longleftrightarrow> (\<exists>k. get_data_type field = OTHER k)) \<and>
   GetDataSize field rows data \<noteq> Inl (NotSupportedDataType t)"
  by (cases "get_data_type field")
    (auto simp: GetDataSize_def get_sizeof_def datatype_is_variable_def Let_def)

theorem GetDataSize_unsupported_type_witness:
  "GetDataSize \<lparr>get_data_type = OTHER 0, element_width = 4\<rparr> 3 FieldNotSet =
     Inl (UnsupportedDataType (OTHER 0)) \<and>
   GetDataSize \<lparr>get_data_type = OTHER 7, element_width = 0\<rparr> 0 (Scalars (StringData [''ab''])) =
     Inl (UnsupportedDataType (OTHER 7))"
  using GetDataSize_unsupported_type
      [of "\<lparr>get_data_type = OTHER 0, element_width = 4\<rparr>" 0 3 FieldNotSet]
    GetDataSize_unsupported_type
      [of "\<lparr>get_data_type = OTHER 7, element_width = 0\<rparr>" 7 0 "Scalars (StringData [''ab''])"]
  by simp

subsection \<open>What FillField places in memory\<close>

lemma bytes_of_string_simps [simp]:
  "length (bytes_of_string s) = length s"
  "bytes_of_string (s @ t) = bytes_of_string s @ bytes_of_string t"
  "bytes_of_string [] = []"
  by (simp_all add: bytes_of_string_def)

lemma memcpy_eq:
  "memcpy dst src n =
     (if n \<le> length src \<and> n \<le> length dst then Inr (take n src @ drop n dst)
      else Inl BufferOverrun)"
  by (simp add: memcpy_def store_def min_def)

lemma copy_strings_eq:
  "dest \<le> length mem \<Longrightarrow> copy_strings mem dest ss =
     (if dest + length (concat ss) \<le> length mem
      then Inr (take dest mem @ bytes_of_string (concat ss) @
                drop (dest + length (concat ss)) mem)
      else Inl BufferOverrun)"
proof (induction ss arbitrary: mem dest)
  case Nil
  then show ?case by simp
next
  case (Cons s ss)
  show ?case
  proof (cases "dest + length s \<le> length mem")
    case False
    then show ?thesis by (simp add: store_def)
  next
    case True
    let ?mem' = "take dest mem @ bytes_of_string s @ drop (dest + length s) mem"
    have len: "length ?mem' = length mem" using True by simp
    have st: "store mem dest (bytes_of_string s) = Inr ?mem'"
      using True by (simp add: store_def)
    have tk: "take (dest + length s) ?mem' = take dest mem @ bytes_of_string s"
      using True by simp
    have dr: "drop (dest + length s + length (concat ss)) ?mem' =
        drop (dest + length s + length (concat ss)) mem"
      using True by (simp add: ac_simps)
    have step: "copy_strings mem dest (s # ss) = copy_strings ?mem' (dest + length s) ss"
      by (simp add: st)
    have ih: "copy_strings ?mem' (dest + length s) ss =
        (if dest + length s + length (concat ss) \<le> length ?mem'
         then Inr (take (dest + length s) ?mem' @ bytes_of_string (concat ss) @
                   drop (dest + length s + length (concat ss)) ?mem')
         else Inl BufferOverrun)"
      by (rule Cons.IH) (use True in simp)
    show ?thesis
      unfolding step ih tk dr len by (simp add: add.assoc)
  qed
qed

lemma FillField_VARCHAR_eq:
  "FillField VARCHAR sz info dst =
     (if length (concat (string_data (scalars (field_data info)))) \<le> length dst
      then Inr (bytes_of_string (concat (string_data (scalars (field_data info)))) @
                drop (length (concat (string_data (scalars (field_data info))))) dst)
      else Inl BufferOverrun)"
  by (simp add: FillField_def Let_def copy_strings_eq)

text \<open>
  Claim C9. A string column reaches \<open>FillField\<close> as \<open>VARCHAR\<close>, the string
  case of its switch. \<open>FillField\<close> writes the elements' bytes end to end in input
  order, with nothing between them: the region it returns starts with the bytes of the
  concatenation of the elements and is untouched after them (a region too short for
  them is overrun). A region of exactly that many bytes holds exactly the
  concatenation; the column \<open>["ab", "", "cde"]\<close> gives the 5 bytes of \<open>"abcde"\<close>.
\<close>

theorem FillField_VARCHAR_concat:
  "FillField VARCHAR sz info dst =
     (if length (concat (string_data (scalars (field_data info)))) \<le> length dst
      then Inr (bytes_of_string (concat (string_data (scalars (field_data info)))) @
                drop (length (concat (string_data (scalars (field_data info))))) dst)
      else Inl BufferOverrun)"
  by (rule FillField_VARCHAR_eq)

theorem FillField_VARCHAR_concat_witness:
  "FillField VARCHAR 5
     \<lparr>field_id = 2, field_data = Scalars (StringData [''ab'', '''', ''cde'']), row_count = 3,
      mmap_dir_path = None\<rparr> (replicate 5 0) = Inr (bytes_of_string ''abcde'') \<and>
   bytes_of_string ''abcde'' = [97, 98, 99, 100, 101]"
  using FillField_VARCHAR_concat [of 5
     "\<lparr>field_id = 2, field_data = Scalars (StringData [''ab'', '''', ''cde'']), row_count = 3,
      mmap_dir_path = None\<rparr>" "replicate 5 0"]
  by (simp add: scalars_def string_data_def bytes_of_string_def)

subsection \<open>Narrowing of 8-bit and 16-bit integers\<close>

lemma uint_narrow8: "uint (ucast (x :: 32 word) :: 8 word) = uint x mod 2 ^ 8"
  by (simp add: take_bit_eq_mod unsigned_ucast_eq)

lemma uint_narrow16: "uint (ucast (x :: 32 word) :: 16 word) = uint x mod 2 ^ 16"
  by (simp add: take_bit_eq_mod unsigned_ucast_eq)

lemma sint_narrow8:
  assumes "- 128 \<le> sint (x :: 32 word)" "sint x \<le> 127"
  shows "sint (ucast x :: 8 word) = sint x"
proof -
  have "sint (ucast x :: 8 word) = signed_take_bit 7 (uint x)"
    by (simp add: signed_ucast_eq)
  also have "\<dots> = signed_take_bit 7 (signed_take_bit 31 (uint x))"
    by simp
  also have "\<dots> = signed_take_bit 7 (sint x)"
    by (simp add: sint_uint)
  also have "\<dots> = sint x"
    by (rule signed_take_bit_int_eq_self) (use assms in simp_all)
  finally show ?thesis .
qed

lemma sint_narrow16:
  assumes "- 32768 \<le> sint (x :: 32 word)" "sint x \<le> 32767"
  shows "sint (ucast x :: 16 word) = sint x"
proof -
  have "sint (ucast x :: 16 word) = signed_take_bit 15 (uint x)"
    by (simp add: signed_ucast_eq)
  also have "\<dots> = signed_take_bit 15 (signed_take_bit 31 (uint x))"
    by simp
  also have "\<dots> = signed_take_bit 15 (sint x)"
    by (simp add: sint_uint)
  also have "\<dots> = sint x"
    by (rule signed_take_bit_int_eq_self) (use assms in simp_all)
  finally show ?thesis .
qed

lemma uint_int16_bytes:
  "uint (ucast (w :: 16 word) :: 8 word) + 2 ^ 8 * uint (ucast (drop_bit 8 w) :: 8 word) = uint w"
proof -
  have lo: "uint (ucast w :: 8 word) = uint w mod 2 ^ 8"
    by (simp add: unsigned_ucast_eq take_bit_eq_mod)
  have "uint w < 2 ^ 16" using uint_bounded [of w] by simp
  then have small: "uint w div 2 ^ 8 < 2 ^ 8" by simp
  have "uint (ucast (drop_bit 8 w) :: 8 word) = (uint w div 2 ^ 8) mod 2 ^ 8"
    by (simp add: unsigned_ucast_eq take_bit_eq_mod drop_bit_eq_div uint_div)
  also have "\<dots> = uint w div 2 ^ 8"
    using small by (simp add: pos_imp_zdiv_nonneg_iff)
  finally have hi: "uint (ucast (drop_bit 8 w) :: 8 word) = uint w div 2 ^ 8" .
  show ?thesis unfolding lo hi by simp
qed

lemma length_concat_int16:
  "length (concat (map (\<lambda>x. bytes_of_int16 (f x)) xs)) = 2 * length xs"
  by (induction xs) (simp_all add: bytes_of_int16_def)

lemma concat_narrow_int8: "concat (map bytes_of_int8 (narrow_int8 xs)) = map ucast xs"
  by (induction xs) (simp_all add: bytes_of_int8_def narrow_int8_def)

lemma concat_narrow_int16:
  "concat (map bytes_of_int16 (narrow_int16 xs)) =
     concat (map (\<lambda>x. bytes_of_int16 (ucast x)) xs)"
  by (simp add: narrow_int16_def comp_def)

text \<open>
  Claim C8. For an \<open>INT8\<close> (\<open>INT16\<close>) column the 32-bit source elements are
  narrowed one by one to 8 (16) bits and the narrowed array is what is copied, to
  memory by \<open>FillField\<close> and to the file by \<open>WriteFieldData\<close>: the region holds
  the first \<open>sz\<close> bytes of the narrowed elements, one byte each (two bytes each, low
  byte first). Narrowing reduces the value modulo \<open>2 ^ 8\<close> (\<open>2 ^ 16\<close>), so an
  element within the range of the target type keeps its signed value, and the two bytes
  of a 16-bit element give back its 16 bits.
\<close>

theorem FillField_narrowing:
  assumes src: "src = int_data (scalars (field_data info))"
  shows
    "FillField INT8 sz info dst =
       (if unat sz \<le> length src \<and> unat sz \<le> length dst
        then Inr (take (unat sz) (map ucast src) @ drop (unat sz) dst)
        else Inl BufferOverrun) \<and>
     FillField INT16 sz info dst =
       (if unat sz \<le> 2 * length src \<and> unat sz \<le> length dst
        then Inr (take (unat sz) (concat (map (\<lambda>x. bytes_of_int16 (ucast x)) src)) @
                  drop (unat sz) dst)
        else Inl BufferOverrun) \<and>
     WriteFieldData fd INT8 (field_data info) sz w = sys_write fd (map ucast src) (unat sz) w \<and>
     WriteFieldData fd INT16 (field_data info) sz w =
       sys_write fd (concat (map (\<lambda>x. bytes_of_int16 (ucast x)) src)) (unat sz) w \<and>
     (\<forall>x \<in> set src.
        uint (ucast x :: 8 word) = uint x mod 2 ^ 8 \<and>
        (- 128 \<le> sint x \<and> sint x \<le> 127 \<longrightarrow> sint (ucast x :: 8 word) = sint x) \<and>
        uint (ucast x :: 16 word) = uint x mod 2 ^ 16 \<and>
        (- 32768 \<le> sint x \<and> sint x \<le> 32767 \<longrightarrow> sint (ucast x :: 16 word) = sint x) \<and>
        (\<exists>lo hi. bytes_of_int16 (ucast x) = [lo, hi] \<and>
                 uint lo + 2 ^ 8 * uint hi = uint x mod 2 ^ 16))"
proof (intro conjI ballI)
  show "FillField INT8 sz info dst =
       (if unat sz \<le> length src \<and> unat sz \<le> length dst
        then Inr (take (unat sz) (map ucast src) @ drop (unat sz) dst)
        else Inl BufferOverrun)"
    by (simp add: FillField_def Let_def memcpy_eq concat_narrow_int8 src)
  show "FillField INT16 sz info dst =
       (if unat sz \<le> 2 * length src \<and> unat sz \<le> length dst
        then Inr (take (unat sz) (concat (map (\<lambda>x. bytes_of_int16 (ucast x)) src)) @
                  drop (unat sz) dst)
        else Inl BufferOverrun)"
    by (simp add: FillField_def Let_def memcpy_eq concat_narrow_int16 length_concat_int16 src)
  show "WriteFieldData fd INT8 (field_data info) sz w = sys_write fd (map ucast src) (unat sz) w"
    by (simp add: WriteFieldData_def concat_narrow_int8 src)
  show "WriteFieldData fd INT16 (field_data info) sz w =
       sys_write fd (concat (map (\<lambda>x. bytes_of_int16 (ucast x)) src)) (unat sz) w"
    by (simp add: WriteFieldData_def concat_narrow_int16 src)
next
  fix x :: "32 word"
  show "uint (ucast x :: 8 word) = uint x mod 2 ^ 8" by (rule uint_narrow8)
  show "- 128 \<le> sint x \<and> sint x \<le> 127 \<longrightarrow> sint (ucast x :: 8 word) = sint x"
    by (simp add: sint_narrow8)
  show "uint (ucast x :: 16 word) = uint x mod 2 ^ 16" by (rule uint_narrow16)
  show "- 32768 \<le> sint x \<and> sint x \<le> 32767 \<longrightarrow> sint (ucast x :: 16 word) = sint x"
    by (simp add: sint_narrow16)
  have "uint (ucast (ucast x :: 16 word) :: 8 word) +
      2 ^ 8 * uint (ucast (drop_bit 8 (ucast x :: 16 word)) :: 8 word) = uint x mod 2 ^ 16"
    by (simp only: uint_int16_bytes uint_narrow16)
  then show "\<exists>lo hi. bytes_of_int16 (ucast x) = [lo, hi] \<and>
      uint lo + 2 ^ 8 * uint hi = uint x mod 2 ^ 16"
    by (simp add: bytes_of_int16_def)
qed

theorem FillField_narrowing_witness:
  "FillField INT8 2
     \<lparr>field_id = 2, field_data = Scalars (IntData [127, - 128]), row_count = 2,
      mmap_dir_path = None\<rparr> [0, 0] = Inr [127, 128] \<and>
   sint (127 :: 8 word) = 127 \<and> sint (128 :: 8 word) = - 128 \<and>
   FillField INT16 4
     \<lparr>field_id = 2, field_data = Scalars (IntData [32767, - 32768]), row_count = 2,
      mmap_dir_path = None\<rparr> [0, 0, 0, 0] = Inr [255, 127, 0, 128] \<and>
   sint (32767 :: 16 word) = 32767 \<and> sint (32768 :: 16 word) = - 32768"
  using
    FillField_narrowing [of "[127, - 128]"
      "\<lparr>field_id = 2, field_data = Scalars (IntData [127, - 128]), row_count = 2,
        mmap_dir_path = None\<rparr>" 2 "[0, 0]"]
    FillField_narrowing [of "[32767, - 32768]"
      "\<lparr>field_id = 2, field_data = Scalars (IntData [32767, - 32768]), row_count = 2,
        mmap_dir_path = None\<rparr>" 4 "[0, 0, 0, 0]"]
  by (simp add: scalars_def int_data_def bytes_of_int16_def)

subsection \<open>Evaluation of the examples\<close>

lemmas eval_defs =
  CreateMap_def CreateMap_file_def CreateMap_anonymous_def Let_def
  sys_create_directories_def sys_open_def sys_write_def sys_fsync_def sys_mmap_anon_def
  sys_mmap_file_def sys_unlink_def sys_close_def logged_def open_inode_def next_write_def
  append_inode_def empty_world_def WriteFieldData_def FillField_def GetDataSize_def
  datatype_is_variable_def get_sizeof_def scalars_def vectors_def int_data_def string_data_def
  to_string_def digits.simps bytes_of_string_def bytes_of_word32_def memcpy_def store_def

subsection \<open>What WriteFieldData writes to the file\<close>

lemma next_write_complete:
  "writes_complete w \<Longrightarrow> \<exists>w'. next_write w = (Complete, w') \<and> writes_complete w' \<and>
      inodes w' = inodes w \<and> descriptors w' = descriptors w"
  by (cases "write_script w") (auto simp: next_write_def writes_complete_def)

lemma sys_write_complete:
  assumes "writes_complete w" "open_inode w fd = Some ino" "n \<le> length buf"
  shows "\<exists>w'. sys_write fd buf n w = Inr (of_nat n, w') \<and> writes_complete w' \<and>
      open_inode w' fd = Some ino \<and> inodes w' ino = inodes w ino @ take n buf"
proof -
  let ?w1 = "logged (SysWrite fd n) w"
  have "writes_complete ?w1" using assms(1) by (simp add: writes_complete_def logged_def)
  from next_write_complete [OF this] obtain w2 where
    w2: "next_write ?w1 = (Complete, w2)" "writes_complete w2" "inodes w2 = inodes w"
      "descriptors w2 = descriptors w"
    by (auto simp: logged_def)
  show ?thesis
    using assms w2
    by (auto simp: sys_write_def Let_def append_inode_def open_inode_def writes_complete_def
        split: if_splits)
qed

lemma write_strings_complete:
  assumes "writes_complete w" "open_inode w fd = Some ino"
  shows "\<exists>w'. write_strings fd ss tot w = Inr (tot + of_nat (length (concat ss)), w') \<and>
      writes_complete w' \<and> open_inode w' fd = Some ino \<and>
      inodes w' ino = inodes w ino @ bytes_of_string (concat ss)"
  using assms
proof (induction ss arbitrary: tot w)
  case Nil
  then show ?case by simp
next
  case (Cons s ss)
  from sys_write_complete [OF Cons.prems(1,2), of "length s" "bytes_of_string s"]
  obtain w1 where w1: "sys_write fd (bytes_of_string s) (length s) w = Inr (of_nat (length s), w1)"
    "writes_complete w1" "open_inode w1 fd = Some ino"
    "inodes w1 ino = inodes w ino @ bytes_of_string s"
    by auto
  from Cons.IH [OF w1(2) w1(3), of "tot + of_nat (length s)"]
  obtain w' where w': "write_strings fd ss (tot + of_nat (length s)) w1 =
      Inr (tot + of_nat (length s) + of_nat (length (concat ss)), w')"
    "writes_complete w'" "open_inode w' fd = Some ino"
    "inodes w' ino = inodes w1 ino @ bytes_of_string (concat ss)"
    by auto
  show ?case
    using w1 w' by (simp add: add.assoc)
qed

lemma write_matches_memcpy:
  assumes "writes_complete w" "open_inode w fd = Some ino"
    "memcpy dst src (unat sz) = Inr mem"
  shows "\<exists>w'. sys_write fd src (unat sz) w = Inr (sz, w') \<and> unat sz \<le> length mem \<and>
      writes_complete w' \<and> open_inode w' fd = Some ino \<and>
      inodes w' ino = inodes w ino @ take (unat sz) mem \<and>
      drop (unat sz) mem = drop (unat sz) dst"
proof -
  let ?n = "unat sz"
  from assms(3) have n: "?n \<le> length src" "?n \<le> length dst"
    and mem: "mem = take ?n src @ drop ?n dst"
    by (simp_all add: memcpy_eq split: if_splits)
  from sys_write_complete [OF assms(1,2) n(1)] obtain w' where
    "sys_write fd src ?n w = Inr (of_nat ?n, w')" "writes_complete w'"
    "open_inode w' fd = Some ino" "inodes w' ino = inodes w ino @ take ?n src"
    by auto
  then show ?thesis using n mem by auto
qed

text \<open>The two functions reject the same types: they share the dispatch.\<close>

lemma memcpy_not_Unsupported [simp]: "memcpy dst src n \<noteq> Inl Unsupported"
  by (simp add: memcpy_eq)

lemma copy_strings_not_Unsupported [simp]: "copy_strings mem dest ss \<noteq> Inl Unsupported"
  by (induction ss arbitrary: mem dest) (auto simp: store_def split: sum.splits if_splits)

lemma sys_write_Inl: "sys_write fd buf n w = Inl e \<Longrightarrow> e = BufferOverrun"
  by (auto simp: sys_write_def Let_def split: if_splits option.splits prod.splits
      write_outcome.splits)

lemma sys_write_not_Unsupported [simp]: "sys_write fd buf n w \<noteq> Inl Unsupported"
  using sys_write_Inl by fastforce

lemma write_strings_Inl: "write_strings fd ss tot w = Inl e \<Longrightarrow> e = BufferOverrun"
  by (induction ss arbitrary: tot w) (auto split: sum.splits if_splits dest: sys_write_Inl)

lemma write_strings_not_Unsupported [simp]: "write_strings fd ss tot w \<noteq> Inl Unsupported"
  using write_strings_Inl by fastforce

lemma Unsupported_agree:
  "(FillField data_type sz info dst = Inl Unsupported) \<longleftrightarrow>
   (WriteFieldData fd data_type (field_data info) sz w = Inl Unsupported)"
  by (cases data_type) (simp_all add: FillField_def WriteFieldData_def Let_def)

lemma WriteFieldData_Inl:
  "WriteFieldData fd data_type data sz w = Inl e \<Longrightarrow> e = Unsupported \<or> e = BufferOverrun"
  by (cases data_type)
    (auto simp: WriteFieldData_def dest: sys_write_Inl write_strings_Inl)

lemma WriteFieldData_FillField:
  assumes complete: "writes_complete w"
    and fd: "open_inode w fd = Some ino"
    and fill: "FillField data_type sz info dst = Inr mem"
    and n: "n = (if data_type = VARCHAR
                 then length (concat (string_data (scalars (field_data info))))
                 else unat sz)"
  shows "\<exists>w'. WriteFieldData fd data_type (field_data info) sz w = Inr (of_nat n, w') \<and>
      n \<le> length mem \<and> inodes w' ino = inodes w ino @ take n mem \<and>
      drop n mem = drop n dst"
proof (cases "data_type = VARCHAR")
  case True
  let ?s = "concat (string_data (scalars (field_data info)))"
  from fill True have len: "length ?s \<le> length dst"
    and mem: "mem = bytes_of_string ?s @ drop (length ?s) dst"
    by (simp_all add: FillField_VARCHAR_eq split: if_splits)
  from write_strings_complete [OF complete fd, of "string_data (scalars (field_data info))" 0]
  obtain w' where "write_strings fd (string_data (scalars (field_data info))) 0 w =
      Inr (of_nat (length ?s), w')" "inodes w' ino = inodes w ino @ bytes_of_string ?s"
    by auto
  then show ?thesis
    using True len mem n by (auto simp: WriteFieldData_def)
next
  case False
  with fill n show ?thesis
    by (cases data_type)
      (auto simp: FillField_def WriteFieldData_def Let_def
        dest!: write_matches_memcpy [OF complete fd])
qed

text \<open>The shape of a successful call of \<open>CreateMap\<close> on either path.\<close>

lemma FillField_length:
  "FillField data_type sz info dst = Inr mem \<Longrightarrow> length mem = length dst"
  by (cases data_type)
    (auto simp: FillField_def Let_def memcpy_eq copy_strings_eq split: if_splits)

lemma FillField_not_variable:
  "FillField data_type sz info dst = Inr mem \<Longrightarrow> data_type \<noteq> VARCHAR \<Longrightarrow>
     \<not> datatype_is_variable data_type"
  by (cases data_type) (auto simp: FillField_def Let_def datatype_is_variable_def)

lemma FillField_field_data:
  "field_data info = field_data info' \<Longrightarrow>
     FillField data_type sz info dst = FillField data_type sz info' dst"
  by (simp add: FillField_def Let_def)

lemma FillField_VARCHAR_any_size:
  "FillField VARCHAR sz info dst = FillField VARCHAR sz' info dst"
  by (simp add: FillField_def Let_def)

lemma CreateMap_anonymous_Some:
  assumes "CreateMap_anonymous field_meta info w = (Inr (Some a), wanon)"
  shows "\<exists>ds mem. GetDataSize field_meta (row_count info) (field_data info) = Inr ds \<and>
      FillField (get_data_type field_meta) ds info (replicate (unat ds) 0) = Inr mem \<and>
      mapped_bytes wanon a = mem"
  using assms
  by (auto simp: CreateMap_anonymous_def Let_def sys_mmap_anon_def logged_def mapped_bytes_def
      split: sum.splits option.splits prod.splits if_splits)

lemma sys_open_fresh:
  "sys_open p w = (Some fd, w') \<Longrightarrow>
     \<exists>ino. open_inode w' fd = Some ino \<and> inodes w' ino = [] \<and>
       write_script w' = write_script w"
  by (auto simp: sys_open_def Let_def open_inode_def logged_def nth_append
      split: if_splits option.splits)

lemma sys_create_directories_script:
  "sys_create_directories d w = (r, w') \<Longrightarrow> write_script w' = write_script w"
  by (auto simp: sys_create_directories_def Let_def logged_def split: if_splits)

lemma sys_write_frame:
  "sys_write fd buf n w = Inr (r, w') \<Longrightarrow>
     entries w' = entries w \<and> descriptors w' = descriptors w \<and> mappings w' = mappings w"
  by (auto simp: sys_write_def Let_def next_write_def append_inode_def logged_def
      split: if_splits option.splits prod.splits write_outcome.splits list.splits)

lemma write_strings_frame:
  "write_strings fd ss tot w = Inr (r, w') \<Longrightarrow>
     entries w' = entries w \<and> descriptors w' = descriptors w \<and> mappings w' = mappings w"
proof (induction ss arbitrary: tot w)
  case Nil
  then show ?case by simp
next
  case (Cons s ss)
  then show ?case
    by (auto split: sum.splits if_splits dest!: sys_write_frame)
qed

lemma WriteFieldData_frame:
  "WriteFieldData fd data_type data sz w = Inr (r, w') \<Longrightarrow>
     entries w' = entries w \<and> descriptors w' = descriptors w \<and> mappings w' = mappings w"
  by (cases data_type)
    (auto simp: WriteFieldData_def dest: sys_write_frame write_strings_frame)

lemma CreateMap_file_Some:
  assumes "CreateMap_file mmap_dir segment_id field_meta info w = (Inr (Some b), wb)"
  shows "\<exists>wo fd ino width written ww.
      open_inode wo fd = Some ino \<and> inodes wo ino = [] \<and> write_script wo = write_script w \<and>
      get_sizeof field_meta = Inr width \<and>
      WriteFieldData fd (get_data_type field_meta) (field_data info)
        (width * row_count info) wo = Inr (written, ww) \<and>
      mapped_bytes wb b = take (unat written) (inodes ww ino)"
proof -
  let ?p = "mmap_dir @ [to_string segment_id, to_string (field_id info)]"
  from assms obtain wd fd wo width written ww wm where
    cd: "sys_create_directories (butlast ?p) w = (True, wd)"
    and op: "sys_open ?p wd = (Some fd, wo)"
    and width: "get_sizeof field_meta = Inr width"
    and wr: "WriteFieldData fd (get_data_type field_meta) (field_data info)
        (width * row_count info) wo = Inr (written, ww)"
    and mm: "sys_mmap_file fd (unat written) (snd (sys_fsync fd ww)) = (Some b, wm)"
    and wb: "mappings wb = mappings wm" "inodes wb = inodes wm"
    by (auto simp: CreateMap_file_def Let_def sys_unlink_def sys_close_def logged_def
        split: sum.splits option.splits prod.splits if_splits)
  from sys_open_fresh [OF op] sys_create_directories_script [OF cd] obtain ino where
    ino: "open_inode wo fd = Some ino" "inodes wo ino = []" "write_script wo = write_script w"
    by auto
  from WriteFieldData_frame [OF wr] ino(1) have "open_inode ww fd = Some ino"
    by (auto simp: open_inode_def split: if_splits)
  with mm have "mappings wm ! b = FileBacked ino (unat written)" "inodes wm = inodes ww"
    by (auto simp: sys_mmap_file_def sys_fsync_def Let_def logged_def open_inode_def
        split: if_splits option.splits)
  with wb have "mapped_bytes wb b = take (unat written) (inodes ww ino)"
    by (simp add: mapped_bytes_def)
  with ino width wr show ?thesis by blast
qed

lemma CreateMap_same_bytes:
  assumes complete: "writes_complete wback"
    and paths: "mmap_dir_path info_a = None" "mmap_dir_path info_f = Some mmap_dir"
    and same: "field_data info_f = field_data info_a" "row_count info_f = row_count info_a"
    and anon: "CreateMap segment_id field_meta info_a wanon = (Inr (Some a), wanon')"
    and backed: "CreateMap segment_id' field_meta info_f wback = (Inr (Some b), wback')"
  shows "mapped_bytes wanon' a = mapped_bytes wback' b"
proof -
  let ?dt = "get_data_type field_meta"
  from anon paths(1) CreateMap_anonymous_Some obtain ds mem where
    ds: "GetDataSize field_meta (row_count info_a) (field_data info_a) = Inr ds"
    and fill: "FillField ?dt ds info_a (replicate (unat ds) 0) = Inr mem"
    and a: "mapped_bytes wanon' a = mem"
    by (fastforce simp: CreateMap_def)
  from backed paths(2) CreateMap_file_Some obtain wo fd ino width written ww where
    fd: "open_inode wo fd = Some ino" and empty: "inodes wo ino = []"
    and script: "write_script wo = write_script wback"
    and width: "get_sizeof field_meta = Inr width"
    and wr: "WriteFieldData fd ?dt (field_data info_f) (width * row_count info_f) wo =
      Inr (written, ww)"
    and b: "mapped_bytes wback' b = take (unat written) (inodes ww ino)"
    by (fastforce simp: CreateMap_def)
  let ?sz = "width * row_count info_f"
  from complete script have cwo: "writes_complete wo"
    by (simp add: writes_complete_def)
  have len: "length mem = unat ds"
    using FillField_length [OF fill] by simp
  show ?thesis
  proof (cases "?dt = VARCHAR")
    case True
    let ?n = "length (concat (string_data (scalars (field_data info_f))))"
    from fill True same(1) have fill': "FillField ?dt ?sz info_f (replicate (unat ds) 0) = Inr mem"
      using FillField_VARCHAR_any_size [of ds info_a "replicate (unat ds) 0" ?sz]
        FillField_field_data [of info_a info_f VARCHAR ?sz "replicate (unat ds) 0"]
      by simp
    from WriteFieldData_FillField [OF cwo fd fill', of ?n] True wr empty
    have w: "written = of_nat ?n" "?n \<le> length mem" "inodes ww ino = take ?n mem"
      by auto
    from ds True same(1) have "ds = of_nat ?n"
      by (simp add: GetDataSize_def datatype_is_variable_def string_sizes_sum length_concat)
    moreover have "unat (of_nat ?n :: 64 word) \<le> ?n"
      by (simp add: unat_of_nat)
    ultimately have "unat (of_nat ?n :: 64 word) = ?n" "length mem = ?n"
      using len w(2) by simp_all
    with a b w show ?thesis by simp
  next
    case False
    with fill have nv: "\<not> datatype_is_variable ?dt"
      by (rule FillField_not_variable)
    with ds same(2) width have "ds = ?sz"
      by (simp add: GetDataSize_def)
    with fill same(1) have fill': "FillField ?dt ?sz info_f (replicate (unat ?sz) 0) = Inr mem"
      using FillField_field_data [of info_a info_f ?dt ?sz "replicate (unat ?sz) 0"] by simp
    from WriteFieldData_FillField [OF cwo fd fill', of "unat ?sz"] False wr empty
    have "written = ?sz" "inodes ww ino = take (unat ?sz) mem"
      by auto
    with a b len \<open>ds = ?sz\<close> show ?thesis by simp
  qed
qed

text \<open>
  Claim C2. Let every \<^verbatim>\<open>write\<close> call write its buffer in full, and let \<open>fd\<close> be
  open on a file. Whenever \<open>FillField\<close> fills a region for a data type and a batch,
  \<open>WriteFieldData\<close> for the same type, batch and size succeeds, returns the number
  \<open>n\<close> of bytes of the column (the total length of the strings for \<open>VARCHAR\<close>, the
  requested size otherwise), and appends to the file exactly the first \<open>n\<close> bytes of
  the filled region; \<open>FillField\<close> left the region untouched after those \<open>n\<close>
  bytes. So the bytes written to the file are the bytes placed in memory. As a
  consequence, when \<open>CreateMap\<close> succeeds for the same field and batch both without
  and with a mapping directory, the file-backed mapping shows the same bytes as the
  anonymous one.
\<close>

theorem WriteFieldData_writes_FillField_bytes:
  "(writes_complete w \<and> open_inode w fd = Some ino \<and>
    FillField data_type sz info dst = Inr mem \<longrightarrow>
      (\<exists>n w'. WriteFieldData fd data_type (field_data info) sz w = Inr (of_nat n, w') \<and>
         n = (if data_type = VARCHAR
              then length (concat (string_data (scalars (field_data info))))
              else unat sz) \<and>
         n \<le> length mem \<and> inodes w' ino = inodes w ino @ take n mem \<and>
         drop n mem = drop n dst)) \<and>
   (writes_complete wback \<and> mmap_dir_path info_a = None \<and> mmap_dir_path info_f = Some mmap_dir \<and>
    field_data info_f = field_data info_a \<and> row_count info_f = row_count info_a \<and>
    CreateMap segment_id field_meta info_a wanon = (Inr (Some a), wanon') \<and>
    CreateMap segment_id field_meta info_f wback = (Inr (Some b), wback') \<longrightarrow>
      mapped_bytes wanon' a = mapped_bytes wback' b)"
proof (intro conjI impI)
  assume "writes_complete w \<and> open_inode w fd = Some ino \<and>
    FillField data_type sz info dst = Inr mem"
  then show "\<exists>n w'. WriteFieldData fd data_type (field_data info) sz w = Inr (of_nat n, w') \<and>
         n = (if data_type = VARCHAR
              then length (concat (string_data (scalars (field_data info))))
              else unat sz) \<and>
         n \<le> length mem \<and> inodes w' ino = inodes w ino @ take n mem \<and>
         drop n mem = drop n dst"
    using WriteFieldData_FillField [of w fd ino data_type sz info dst mem] by blast
next
  assume "writes_complete wback \<and> mmap_dir_path info_a = None \<and>
    mmap_dir_path info_f = Some mmap_dir \<and>
    field_data info_f = field_data info_a \<and> row_count info_f = row_count info_a \<and>
    CreateMap segment_id field_meta info_a wanon = (Inr (Some a), wanon') \<and>
    CreateMap segment_id field_meta info_f wback = (Inr (Some b), wback')"
  then show "mapped_bytes wanon' a = mapped_bytes wback' b"
    using CreateMap_same_bytes by blast
qed

theorem WriteFieldData_writes_FillField_bytes_witness:
  "FillField INT16 4
     \<lparr>field_id = 2, field_data = Scalars (IntData [1, - 2]), row_count = 2,
      mmap_dir_path = None\<rparr> [0, 0, 0, 0] = Inr [1, 0, 254, 255] \<and>
   (\<exists>w'. WriteFieldData 0 INT16 (Scalars (IntData [1, - 2])) 4
            (empty_world\<lparr>descriptors := [Some 0]\<rparr>) = Inr (4, w') \<and>
         inodes w' 0 = [1, 0, 254, 255]) \<and>
   mapped_bytes (snd (CreateMap 1 \<lparr>get_data_type = VARCHAR, element_width = 10\<rparr>
      \<lparr>field_id = 2, field_data = Scalars (StringData [''ab'', ''cde'']), row_count = 2,
       mmap_dir_path = None\<rparr> empty_world)) 0 =
   mapped_bytes (snd (CreateMap 1 \<lparr>get_data_type = VARCHAR, element_width = 10\<rparr>
      \<lparr>field_id = 2, field_data = Scalars (StringData [''ab'', ''cde'']), row_count = 2,
       mmap_dir_path = Some [''d'']\<rparr> empty_world)) 0"
proof -
  let ?info = "\<lparr>field_id = 2, field_data = Scalars (IntData [1, - 2]), row_count = 2,
      mmap_dir_path = None\<rparr>"
  let ?w = "empty_world\<lparr>descriptors := [Some 0]\<rparr>"
  have fill: "FillField INT16 4 ?info [0, 0, 0, 0] = Inr [1, 0, 254, 255]"
    by (simp add: FillField_def Let_def memcpy_eq narrow_int16_def bytes_of_int16_def
        scalars_def int_data_def)
  have "writes_complete ?w \<and> open_inode ?w 0 = Some 0"
    by (simp add: writes_complete_def empty_world_def open_inode_def)
  with fill WriteFieldData_writes_FillField_bytes
    [THEN conjunct1, of ?w 0 0 INT16 4 ?info "[0, 0, 0, 0]" "[1, 0, 254, 255]"]
  have backed: "\<exists>w'. WriteFieldData 0 INT16 (Scalars (IntData [1, - 2])) 4 ?w = Inr (4, w') \<and>
      inodes w' 0 = [1, 0, 254, 255]"
    by (auto simp: empty_world_def)
  let ?fm = "\<lparr>get_data_type = VARCHAR, element_width = 10\<rparr>"
  let ?a = "\<lparr>field_id = 2, field_data = Scalars (StringData [''ab'', ''cde'']), row_count = 2,
       mmap_dir_path = None\<rparr>"
  let ?f = "\<lparr>field_id = 2, field_data = Scalars (StringData [''ab'', ''cde'']), row_count = 2,
       mmap_dir_path = Some [''d'']\<rparr>"
  have "writes_complete empty_world"
    by (simp add: writes_complete_def empty_world_def)
  moreover have "CreateMap 1 ?fm ?a empty_world = (Inr (Some 0), snd (CreateMap 1 ?fm ?a empty_world))"
    by (simp add: eval_defs)
  moreover have "CreateMap 1 ?fm ?f empty_world = (Inr (Some 0), snd (CreateMap 1 ?fm ?f empty_world))"
    by (simp add: eval_defs)
  ultimately have "mapped_bytes (snd (CreateMap 1 ?fm ?a empty_world)) 0 =
      mapped_bytes (snd (CreateMap 1 ?fm ?f empty_world)) 0"
    using WriteFieldData_writes_FillField_bytes
      [THEN conjunct2, of empty_world ?a ?f "[''d'']" 1 ?fm empty_world 0 _ 0]
    by simp
  with fill backed show ?thesis by simp
qed

subsection \<open>CreateMap\<close>

text \<open>
  Claim C10. When the mapping directory path of the load request is absent,
  \<open>CreateMap\<close> makes no file system call: whatever it returns, the directories, the
  directory entries, the file contents and the open descriptors are those of before,
  and the only call it may have added to the log is one anonymous \<^verbatim>\<open>mmap\<close>.
\<close>

theorem CreateMap_anonymous_no_filesystem:
  assumes "mmap_dir_path info = None"
  shows "directories (snd (CreateMap segment_id field_meta info w)) = directories w \<and>
     entries (snd (CreateMap segment_id field_meta info w)) = entries w \<and>
     inodes (snd (CreateMap segment_id field_meta info w)) = inodes w \<and>
     descriptors (snd (CreateMap segment_id field_meta info w)) = descriptors w \<and>
     (syscalls (snd (CreateMap segment_id field_meta info w)) = syscalls w \<or>
      (\<exists>n. syscalls (snd (CreateMap segment_id field_meta info w)) =
         syscalls w @ [SysMmapAnon n]))"
  using assms
  by (auto simp: CreateMap_def CreateMap_anonymous_def sys_mmap_anon_def logged_def Let_def
      split: sum.splits option.splits prod.splits if_splits)

theorem CreateMap_anonymous_no_filesystem_witness:
  "directories (snd (CreateMap 1 \<lparr>get_data_type = INT32, element_width = 4\<rparr>
       \<lparr>field_id = 2, field_data = Scalars (IntData [1, 2]), row_count = 2,
        mmap_dir_path = None\<rparr> empty_world)) = {[]} \<and>
   entries (snd (CreateMap 1 \<lparr>get_data_type = INT32, element_width = 4\<rparr>
       \<lparr>field_id = 2, field_data = Scalars (IntData [1, 2]), row_count = 2,
        mmap_dir_path = None\<rparr> empty_world)) = Map.empty \<and>
   inodes (snd (CreateMap 1 \<lparr>get_data_type = INT32, element_width = 4\<rparr>
       \<lparr>field_id = 2, field_data = Scalars (IntData [1, 2]), row_count = 2,
        mmap_dir_path = None\<rparr> empty_world)) = inodes empty_world \<and>
   descriptors (snd (CreateMap 1 \<lparr>get_data_type = INT32, element_width = 4\<rparr>
       \<lparr>field_id = 2, field_data = Scalars (IntData [1, 2]), row_count = 2,
        mmap_dir_path = None\<rparr> empty_world)) = [] \<and>
   CreateMap 1 \<lparr>get_data_type = INT32, element_width = 4\<rparr>
       \<lparr>field_id = 2, field_data = Scalars (IntData [1, 2]), row_count = 2,
        mmap_dir_path = None\<rparr> empty_world =
     (Inr (Some 0),
      empty_world\<lparr>mappings := [Anonymous [1, 0, 0, 0, 2, 0, 0, 0]],
                   syscalls := [SysMmapAnon 8]\<rparr>)"
  using CreateMap_anonymous_no_filesystem
    [of "\<lparr>field_id = 2, field_data = Scalars (IntData [1, 2]), row_count = 2,
          mmap_dir_path = None\<rparr>" 1 "\<lparr>get_data_type = INT32, element_width = 4\<rparr>" empty_world]
  by (simp add: eval_defs)

text \<open>
  Claim C4. On the file-backed path, once the directories are made, the file is open
  and \<open>WriteFieldData\<close> has returned \<open>written\<close>, \<open>CreateMap\<close> fails with the
  assertion on the write exactly when \<open>written\<close> differs from the expected size and
  it is not the case that \<open>written\<close> is not \<open>-1\<close> and the type is variable-width.
  The expected size is the per-element width that \<open>get_sizeof\<close> returned times the
  row count. Both comparisons are those of the source: of 64-bit words. The failure then
  carries the path and the two numbers, and leaves the state as the write left it.
\<close>

theorem CreateMap_write_assertion:
  assumes "mmap_dir_path info = Some mmap_dir"
    and "filepath = mmap_dir @ [to_string segment_id, to_string (field_id info)]"
    and "sys_create_directories (butlast filepath) w = (True, wd)"
    and "sys_open filepath wd = (Some fd, wo)"
    and "get_sizeof field_meta = Inr width"
    and "sz = width * row_count info"
    and "WriteFieldData fd (get_data_type field_meta) (field_data info) sz wo = Inr (written, ww)"
  shows "((\<exists>p a b. fst (CreateMap segment_id field_meta info w) = Inl (FailedWrite p a b)) \<longleftrightarrow>
      written \<noteq> sz \<and> \<not> (written \<noteq> - 1 \<and> datatype_is_variable (get_data_type field_meta))) \<and>
     ((CreateMap segment_id field_meta info w = (Inl (FailedWrite filepath written sz), ww)) \<longleftrightarrow>
      written \<noteq> sz \<and> \<not> (written \<noteq> - 1 \<and> datatype_is_variable (get_data_type field_meta)))"
  using assms
  by (auto simp: CreateMap_def CreateMap_file_def Let_def
      split: sum.splits option.splits prod.splits if_splits)

theorem CreateMap_write_assertion_witness:
  "fst (CreateMap 1 \<lparr>get_data_type = INT32, element_width = 4\<rparr>
      \<lparr>field_id = 2, field_data = Scalars (IntData [1, 2]), row_count = 2,
       mmap_dir_path = Some [''d'']\<rparr> (empty_world\<lparr>write_script := [Partial 3]\<rparr>)) =
     Inl (FailedWrite [''d'', ''1'', ''2''] 3 8) \<and>
   fst (CreateMap 1 \<lparr>get_data_type = VARCHAR, element_width = 10\<rparr>
      \<lparr>field_id = 2, field_data = Scalars (StringData [''ab'', ''cde'']), row_count = 2,
       mmap_dir_path = Some [''d'']\<rparr> empty_world) = Inr (Some 0)"
proof -
  let ?fm = "\<lparr>get_data_type = INT32, element_width = 4\<rparr>"
  let ?info = "\<lparr>field_id = 2, field_data = Scalars (IntData [1, 2]), row_count = 2,
       mmap_dir_path = Some [''d'']\<rparr>"
  let ?w = "empty_world\<lparr>write_script := [Partial 3]\<rparr>"
  let ?w1 = "snd (sys_create_directories [''d'', ''1''] ?w)"
  let ?w2 = "snd (sys_open [''d'', ''1'', ''2''] ?w1)"
  let ?w3 = "snd (projr (WriteFieldData 0 INT32 (Scalars (IntData [1, 2])) 8 ?w2))"
  have "CreateMap 1 ?fm ?info ?w = (Inl (FailedWrite [''d'', ''1'', ''2''] 3 8), ?w3) \<longleftrightarrow>
      (3 :: 64 word) \<noteq> 8 \<and> \<not> ((3 :: 64 word) \<noteq> - 1 \<and> datatype_is_variable (get_data_type ?fm))"
    by (rule CreateMap_write_assertion [where mmap_dir = "[''d'']" and wd = ?w1 and fd = 0
          and wo = ?w2 and width = 4, THEN conjunct2])
      (simp_all add: eval_defs)
  then have a: "fst (CreateMap 1 ?fm ?info ?w) = Inl (FailedWrite [''d'', ''1'', ''2''] 3 8)"
    by (simp add: datatype_is_variable_def)
  let ?fm' = "\<lparr>get_data_type = VARCHAR, element_width = 10\<rparr>"
  let ?info' = "\<lparr>field_id = 2, field_data = Scalars (StringData [''ab'', ''cde'']),
       row_count = 2, mmap_dir_path = Some [''d'']\<rparr>"
  let ?v1 = "snd (sys_create_directories [''d'', ''1''] empty_world)"
  let ?v2 = "snd (sys_open [''d'', ''1'', ''2''] ?v1)"
  let ?v3 = "snd (projr (WriteFieldData 0 VARCHAR (Scalars (StringData [''ab'', ''cde''])) 20 ?v2))"
  have "(\<exists>p a b. fst (CreateMap 1 ?fm' ?info' empty_world) = Inl (FailedWrite p a b)) \<longleftrightarrow>
      (5 :: 64 word) \<noteq> 20 \<and> \<not> ((5 :: 64 word) \<noteq> - 1 \<and> datatype_is_variable (get_data_type ?fm'))"
    by (rule CreateMap_write_assertion [where mmap_dir = "[''d'']" and wd = ?v1 and fd = 0
          and wo = ?v2 and ww = ?v3 and filepath = "[''d'', ''1'', ''2'']" and width = 10,
          THEN conjunct1])
      (simp_all add: eval_defs)
  then have "\<not> (\<exists>p a b. fst (CreateMap 1 ?fm' ?info' empty_world) = Inl (FailedWrite p a b))"
    by (simp add: datatype_is_variable_def)
  moreover have "fst (CreateMap 1 ?fm' ?info' empty_world) = Inr (Some 0)"
    by (simp add: eval_defs)
  ultimately show ?thesis using a by simp
qed

text \<open>
  Claim C5. On the file-backed path the expected size of \<open>CreateMap\<close> is the
  descriptor's per-element width, as \<open>get_sizeof\<close> returns it, times the row count,
  for every field, string fields included: it is the total that a failure of the
  assertion on the write reports, and
  for a field that is not variable-width it is the length of the mapping of a successful
  call. The size calculation of the anonymous path, \<open>GetDataSize\<close>, has no part in
  it: for the string field of the example below the two differ (10 and 2).
\<close>

theorem CreateMap_file_expected_size:
  assumes "mmap_dir_path info = Some mmap_dir"
  shows "(\<forall>p written tot.
        fst (CreateMap segment_id field_meta info w) = Inl (FailedWrite p written tot) \<longrightarrow>
        (\<exists>width. get_sizeof field_meta = Inr width \<and> tot = width * row_count info)) \<and>
     (\<forall>a. fst (CreateMap segment_id field_meta info w) = Inr (Some a) \<and>
          \<not> datatype_is_variable (get_data_type field_meta) \<longrightarrow>
          (\<exists>ino width. get_sizeof field_meta = Inr width \<and>
             mappings (snd (CreateMap segment_id field_meta info w)) ! a =
               FileBacked ino (unat (width * row_count info))))"
  using assms
  by (auto simp: CreateMap_def CreateMap_file_def Let_def sys_mmap_file_def sys_unlink_def
      sys_close_def logged_def get_sizeof_Inl
      split: sum.splits option.splits prod.splits if_splits dest: WriteFieldData_Inl)

theorem CreateMap_file_expected_size_witness:
  "fst (CreateMap 1 \<lparr>get_data_type = VARCHAR, element_width = 10\<rparr>
      \<lparr>field_id = 2, field_data = Scalars (StringData [''ab'']), row_count = 1,
       mmap_dir_path = Some [''d'']\<rparr> (empty_world\<lparr>write_script := [Failed]\<rparr>)) =
     Inl (FailedWrite [''d'', ''1'', ''2''] (- 1) 10) \<and>
   (\<exists>width. get_sizeof \<lparr>get_data_type = VARCHAR, element_width = 10\<rparr> = Inr width \<and>
      (10 :: 64 word) = width * 1) \<and>
   GetDataSize \<lparr>get_data_type = VARCHAR, element_width = 10\<rparr> 1
      (Scalars (StringData [''ab''])) = Inr 2 \<and>
   fst (CreateMap 1 \<lparr>get_data_type = INT32, element_width = 4\<rparr>
      \<lparr>field_id = 2, field_data = Scalars (IntData [1, 2]), row_count = 2,
       mmap_dir_path = Some [''d'']\<rparr> empty_world) = Inr (Some 0) \<and>
   (\<exists>ino. mappings (snd (CreateMap 1 \<lparr>get_data_type = INT32, element_width = 4\<rparr>
      \<lparr>field_id = 2, field_data = Scalars (IntData [1, 2]), row_count = 2,
       mmap_dir_path = Some [''d'']\<rparr> empty_world)) ! 0 = FileBacked ino 8)"
proof -
  let ?fm = "\<lparr>get_data_type = VARCHAR, element_width = 10\<rparr>"
  let ?info = "\<lparr>field_id = 2, field_data = Scalars (StringData [''ab'']), row_count = 1,
       mmap_dir_path = Some [''d'']\<rparr>"
  let ?w = "empty_world\<lparr>write_script := [Failed]\<rparr>"
  have failed: "fst (CreateMap 1 ?fm ?info ?w) = Inl (FailedWrite [''d'', ''1'', ''2''] (- 1) 10)"
    by (simp add: eval_defs)
  have "mmap_dir_path ?info = Some [''d'']" by simp
  from CreateMap_file_expected_size [OF this, of 1 ?fm ?w] failed
  have "\<exists>width. get_sizeof ?fm = Inr width \<and> (10 :: 64 word) = width * row_count ?info"
    by blast
  then have tot: "\<exists>width. get_sizeof ?fm = Inr width \<and> (10 :: 64 word) = width * 1"
    by simp
  have size: "GetDataSize ?fm 1 (Scalars (StringData [''ab''])) = Inr 2"
    by (simp add: eval_defs)
  let ?fm' = "\<lparr>get_data_type = INT32, element_width = 4\<rparr>"
  let ?info' = "\<lparr>field_id = 2, field_data = Scalars (IntData [1, 2]), row_count = 2,
       mmap_dir_path = Some [''d'']\<rparr>"
  have ok: "fst (CreateMap 1 ?fm' ?info' empty_world) = Inr (Some 0)"
    by (simp add: eval_defs)
  have "mmap_dir_path ?info' = Some [''d'']" by simp
  from CreateMap_file_expected_size [OF this, of 1 ?fm' empty_world] ok
  have "\<exists>ino width. get_sizeof ?fm' = Inr width \<and>
      mappings (snd (CreateMap 1 ?fm' ?info' empty_world)) ! 0 =
        FileBacked ino (unat (width * row_count ?info'))"
    by (simp add: datatype_is_variable_def)
  then have "\<exists>ino. mappings (snd (CreateMap 1 ?fm' ?info' empty_world)) ! 0 = FileBacked ino 8"
    by (auto simp: get_sizeof_def)
  with failed tot size ok show ?thesis by simp
qed

text \<open>
  Claim C3 fails on the file-backed path. An \<open>INT32\<close> column of zero rows, loaded
  with a mapping directory: \<open>CreateMap\<close> returns null right after \<^verbatim>\<open>fsync\<close>, so
  the file it created is still in the directory and its descriptor is still open; no
  \<^verbatim>\<open>unlink\<close> and no \<^verbatim>\<open>close\<close> was called. The same request without a mapping
  directory returns null and leaves the state as it was.
\<close>

theorem CreateMap_empty_field_leaves_file:
  "CreateMap 1 \<lparr>get_data_type = INT32, element_width = 4\<rparr>
     \<lparr>field_id = 2, field_data = Scalars (IntData []), row_count = 0,
      mmap_dir_path = Some [''d'']\<rparr> empty_world =
   (Inr None,
    empty_world\<lparr>directories := {[], [''d''], [''d'', ''1'']},
                 entries := [[''d'', ''1'', ''2''] \<mapsto> 0], next_inode := 1,
                 descriptors := [Some 0],
                 syscalls := [SysCreateDirectories [''d'', ''1''], SysOpen [''d'', ''1'', ''2''],
                              SysWrite 0 0, SysFsync 0]\<rparr>) \<and>
   CreateMap 1 \<lparr>get_data_type = INT32, element_width = 4\<rparr>
     \<lparr>field_id = 2, field_data = Scalars (IntData []), row_count = 0,
      mmap_dir_path = None\<rparr> empty_world = (Inr None, empty_world)"
  by (simp add: eval_defs fun_upd_idem)

text \<open>
  The same holds of every call on the file-backed path that returns null: the file is
  in the directory, the descriptor is open, and the last call made is \<^verbatim>\<open>fsync\<close>.
  On the anonymous path a column of zero bytes gives null and no call at all.
\<close>

lemma CreateMap_anonymous_empty:
  assumes "mmap_dir_path info = None"
    and "GetDataSize field_meta (row_count info) (field_data info) = Inr 0"
  shows "CreateMap segment_id field_meta info w = (Inr None, w)"
  using assms by (simp add: CreateMap_def CreateMap_anonymous_def)

lemma sys_open_Some:
  "sys_open p w = (Some fd, w') \<Longrightarrow>
     \<exists>ino. entries w' p = Some ino \<and> open_inode w' fd = Some ino"
  by (auto simp: sys_open_def Let_def open_inode_def logged_def nth_append
      split: if_splits option.splits)

lemma CreateMap_file_null_leaves_file:
  assumes "mmap_dir_path info = Some mmap_dir"
    and "CreateMap segment_id field_meta info w = (Inr None, w')"
  shows "\<exists>fd ino.
      entries w' (mmap_dir @ [to_string segment_id, to_string (field_id info)]) = Some ino \<and>
      open_inode w' fd = Some ino \<and> syscalls w' \<noteq> [] \<and> last (syscalls w') = SysFsync fd"
proof -
  let ?p = "mmap_dir @ [to_string segment_id, to_string (field_id info)]"
  from assms obtain wd fd wo width written ww where
    op: "sys_open ?p wd = (Some fd, wo)"
    and wr: "WriteFieldData fd (get_data_type field_meta) (field_data info)
        (width * row_count info) wo = Inr (written, ww)"
    and w': "w' = snd (sys_fsync fd ww)"
    by (auto simp: CreateMap_def CreateMap_file_def Let_def
        split: sum.splits option.splits prod.splits if_splits)
  from sys_open_Some [OF op] obtain ino where
    "entries wo ?p = Some ino" "open_inode wo fd = Some ino"
    by blast
  with WriteFieldData_frame [OF wr] have "entries ww ?p = Some ino" "open_inode ww fd = Some ino"
    by (auto simp: open_inode_def split: if_splits)
  then show ?thesis
    unfolding w' by (auto simp: sys_fsync_def Let_def logged_def open_inode_def split: if_splits)
qed

lemma sys_write_result:
  assumes "sys_write fd buf n w = Inr (r, w')" "open_inode w fd = Some ino"
  shows "(r = - 1 \<and> inodes w' = inodes w) \<or>
     (\<exists>k\<le>n. r = of_nat k \<and> inodes w' ino = inodes w ino @ take k buf)"
proof -
  obtain out w2 where nw: "next_write (logged (SysWrite fd n) w) = (out, w2)"
    by (cases "next_write (logged (SysWrite fd n) w)")
  then have w2: "inodes w2 = inodes w"
    by (auto simp: next_write_def logged_def split: list.splits)
  show ?thesis
  proof (cases out)
    case Complete
    with assms nw w2 have "r = of_nat n \<and> inodes w' ino = inodes w ino @ take n buf"
      by (auto simp: sys_write_def Let_def append_inode_def split: if_splits)
    then show ?thesis by blast
  next
    case (Partial k)
    with assms nw w2 have "min k n \<le> n \<and> r = of_nat (min k n) \<and>
        inodes w' ino = inodes w ino @ take (min k n) buf"
      by (auto simp: sys_write_def Let_def append_inode_def split: if_splits)
    then show ?thesis by blast
  next
    case Failed
    with assms nw w2 show ?thesis
      by (auto simp: sys_write_def Let_def split: if_splits)
  qed
qed

text \<open>
  Claim C7, as stated: \<open>WriteFieldData\<close> returns the number of bytes actually
  written, and a short write is detected by the caller. Both fail for string columns.
  In the \<open>VARCHAR\<close> loop a \<^verbatim>\<open>write\<close> that fails returns \<open>-1\<close>, which the
  comparison with the unsigned element size does not see as smaller: the loop adds it
  to the total and goes on. With the elements \<open>"ab"\<close> and \<open>"cd"\<close>, the first
  write failing and the second complete, \<open>WriteFieldData\<close> returns 1 while the file
  holds the 2 bytes of \<open>"cd"\<close>. A short write leaves the loop before its bytes are
  counted: with the element \<open>"abcd"\<close> and a write of 2 bytes, \<open>WriteFieldData\<close>
  returns 0 while the file holds 2 bytes; \<open>CreateMap\<close>, which accepts every result
  other than \<open>-1\<close> for a variable-width type, then returns null as for an empty
  field.
\<close>

theorem WriteFieldData_VARCHAR_miscounts:
  "WriteFieldData 0 VARCHAR (Scalars (StringData [''ab'', ''cd''])) 20
     (empty_world\<lparr>descriptors := [Some 0], write_script := [Failed]\<rparr>) =
   Inr (1, empty_world\<lparr>inodes := (inodes empty_world)(0 := bytes_of_string ''cd''),
                        descriptors := [Some 0],
                        syscalls := [SysWrite 0 2, SysWrite 0 2]\<rparr>) \<and>
   WriteFieldData 0 VARCHAR (Scalars (StringData [''abcd''])) 10
     (empty_world\<lparr>descriptors := [Some 0], write_script := [Partial 2]\<rparr>) =
   Inr (0, empty_world\<lparr>inodes := (inodes empty_world)(0 := bytes_of_string ''ab''),
                        descriptors := [Some 0],
                        syscalls := [SysWrite 0 4]\<rparr>) \<and>
   fst (CreateMap 1 \<lparr>get_data_type = VARCHAR, element_width = 10\<rparr>
      \<lparr>field_id = 2, field_data = Scalars (StringData [''abcd'']), row_count = 1,
       mmap_dir_path = Some [''d'']\<rparr> (empty_world\<lparr>write_script := [Partial 2]\<rparr>)) = Inr None"
  by (simp add: eval_defs)

text \<open>
  When the failed writes of the \<open>VARCHAR\<close> loop add up to a negative total other
  than \<open>-1\<close>, \<open>CreateMap\<close> passes the assertion and asks \<^verbatim>\<open>mmap\<close> for that
  total read as a \<^verbatim>\<open>size_t\<close>, which fails: with two elements and both writes
  failing the total is \<open>-2\<close>.
\<close>

lemma CreateMap_VARCHAR_failed_writes:
  "map_sum id fst (WriteFieldData 0 VARCHAR (Scalars (StringData [''ab'', ''cd''])) 20
     (empty_world\<lparr>descriptors := [Some 0], write_script := [Failed, Failed]\<rparr>)) = Inr (- 2) \<and>
   fst (CreateMap 1 \<lparr>get_data_type = VARCHAR, element_width = 10\<rparr>
      \<lparr>field_id = 2, field_data = Scalars (StringData [''ab'', ''cd'']), row_count = 2,
       mmap_dir_path = Some [''d'']\<rparr> (empty_world\<lparr>write_script := [Failed, Failed]\<rparr>)) =
     Inl (FailedMap [''d'', ''1'', ''2''])"
  by (simp add: eval_defs)

lemma WriteFieldData_single_write:
  assumes "data_type \<noteq> VARCHAR" "open_inode w fd = Some ino"
    and "WriteFieldData fd data_type data sz w = Inr (r, w')"
  shows "(r = - 1 \<and> inodes w' = inodes w) \<or>
     (\<exists>bs. length bs \<le> unat sz \<and> r = of_nat (length bs) \<and> inodes w' ino = inodes w ino @ bs)"
proof -
  from assms(1,3) obtain buf where wr: "sys_write fd buf (unat sz) w = Inr (r, w')"
    by (cases data_type) (auto simp: WriteFieldData_def)
  then have "unat sz \<le> length buf"
    by (auto simp: sys_write_def split: if_splits)
  with sys_write_result [OF wr assms(2)] show ?thesis
    by (force intro: exI [of _ "take k buf" for k])
qed

text \<open>
  Claim C7, amended. For every data type other than \<open>VARCHAR\<close>, \<open>WriteFieldData\<close>
  returns the result of its one \<^verbatim>\<open>write\<close> call: the number of bytes actually
  written to the descriptor, at most the requested size, or \<open>-1\<close> with nothing
  written. For \<open>VARCHAR\<close>, when every \<^verbatim>\<open>write\<close> call writes its buffer in full,
  it returns the number of bytes written, the total length of the elements. A result
  other than the expected size is detected by \<open>CreateMap\<close> for a type that is not
  variable-width: the call fails with the assertion on the write. For a variable-width
  type \<open>CreateMap\<close> accepts every result other than \<open>-1\<close>: the call does not fail
  with the assertion on the write. (What the \<open>VARCHAR\<close> loop returns after a failed
  or short write is left open here.)
\<close>

theorem WriteFieldData_result:
  "(data_type \<noteq> VARCHAR \<and> open_inode w fd = Some ino \<and>
    WriteFieldData fd data_type data sz w = Inr (r, w') \<longrightarrow>
      (r = - 1 \<and> inodes w' = inodes w) \<or>
      (\<exists>bs. length bs \<le> unat sz \<and> r = of_nat (length bs) \<and>
            inodes w' ino = inodes w ino @ bs)) \<and>
   (writes_complete w \<and> open_inode w fd = Some ino \<longrightarrow>
      (\<exists>w'' bs. WriteFieldData fd VARCHAR data sz w = Inr (of_nat (length bs), w'') \<and>
         inodes w'' ino = inodes w ino @ bs \<and>
         bs = bytes_of_string (concat (string_data (scalars data))))) \<and>
   (mmap_dir_path info = Some mmap_dir \<and>
    filepath = mmap_dir @ [to_string segment_id, to_string (field_id info)] \<and>
    sys_create_directories (butlast filepath) w0 = (True, wd) \<and>
    sys_open filepath wd = (Some fd', wo) \<and>
    get_sizeof field_meta = Inr width \<and>
    WriteFieldData fd' (get_data_type field_meta) (field_data info)
      (width * row_count info) wo = Inr (written, ww) \<and>
    \<not> datatype_is_variable (get_data_type field_meta) \<and>
    written \<noteq> width * row_count info \<longrightarrow>
      CreateMap segment_id field_meta info w0 =
        (Inl (FailedWrite filepath written (width * row_count info)), ww)) \<and>
   (mmap_dir_path info' = Some mmap_dir' \<and>
    filepath' = mmap_dir' @ [to_string segment_id', to_string (field_id info')] \<and>
    sys_create_directories (butlast filepath') v0 = (True, vd) \<and>
    sys_open filepath' vd = (Some fd'', vo) \<and>
    get_sizeof field_meta' = Inr width' \<and>
    WriteFieldData fd'' (get_data_type field_meta') (field_data info')
      (width' * row_count info') vo = Inr (written', vw) \<and>
    datatype_is_variable (get_data_type field_meta') \<and>
    written' \<noteq> - 1 \<longrightarrow>
      (\<forall>p a b. fst (CreateMap segment_id' field_meta' info' v0) \<noteq> Inl (FailedWrite p a b)))"
proof (intro conjI impI)
  assume "data_type \<noteq> VARCHAR \<and> open_inode w fd = Some ino \<and>
    WriteFieldData fd data_type data sz w = Inr (r, w')"
  then show "(r = - 1 \<and> inodes w' = inodes w) \<or>
      (\<exists>bs. length bs \<le> unat sz \<and> r = of_nat (length bs) \<and>
            inodes w' ino = inodes w ino @ bs)"
    using WriteFieldData_single_write by blast
next
  assume "writes_complete w \<and> open_inode w fd = Some ino"
  then obtain w'' where
    "write_strings fd (string_data (scalars data)) 0 w =
       Inr (of_nat (length (concat (string_data (scalars data)))), w'')"
    "inodes w'' ino = inodes w ino @ bytes_of_string (concat (string_data (scalars data)))"
    using write_strings_complete [of w fd ino "string_data (scalars data)" 0] by auto
  then show "\<exists>w'' bs. WriteFieldData fd VARCHAR data sz w = Inr (of_nat (length bs), w'') \<and>
         inodes w'' ino = inodes w ino @ bs \<and>
         bs = bytes_of_string (concat (string_data (scalars data)))"
    by (simp add: WriteFieldData_def)
next
  assume "mmap_dir_path info = Some mmap_dir \<and>
    filepath = mmap_dir @ [to_string segment_id, to_string (field_id info)] \<and>
    sys_create_directories (butlast filepath) w0 = (True, wd) \<and>
    sys_open filepath wd = (Some fd', wo) \<and>
    get_sizeof field_meta = Inr width \<and>
    WriteFieldData fd' (get_data_type field_meta) (field_data info)
      (width * row_count info) wo = Inr (written, ww) \<and>
    \<not> datatype_is_variable (get_data_type field_meta) \<and>
    written \<noteq> width * row_count info"
  then show "CreateMap segment_id field_meta info w0 =
        (Inl (FailedWrite filepath written (width * row_count info)), ww)"
    by (auto simp: CreateMap_def CreateMap_file_def Let_def)
next
  assume "mmap_dir_path info' = Some mmap_dir' \<and>
    filepath' = mmap_dir' @ [to_string segment_id', to_string (field_id info')] \<and>
    sys_create_directories (butlast filepath') v0 = (True, vd) \<and>
    sys_open filepath' vd = (Some fd'', vo) \<and>
    get_sizeof field_meta' = Inr width' \<and>
    WriteFieldData fd'' (get_data_type field_meta') (field_data info')
      (width' * row_count info') vo = Inr (written', vw) \<and>
    datatype_is_variable (get_data_type field_meta') \<and>
    written' \<noteq> - 1"
  then show "\<forall>p a b. fst (CreateMap segment_id' field_meta' info' v0) \<noteq>
      Inl (FailedWrite p a b)"
    by (auto simp: CreateMap_def CreateMap_file_def Let_def
        split: sum.splits option.splits prod.splits if_splits)
qed

theorem WriteFieldData_result_witness:
  "(\<exists>w'. WriteFieldData 0 INT32 (Scalars (IntData [1, 2])) 8
            (empty_world\<lparr>descriptors := [Some 0], write_script := [Partial 3]\<rparr>) = Inr (3, w') \<and>
         inodes w' 0 = [1, 0, 0]) \<and>
   (\<exists>w'. WriteFieldData 0 VARCHAR (Scalars (StringData [''ab'', ''cde''])) 20
            (empty_world\<lparr>descriptors := [Some 0]\<rparr>) = Inr (5, w') \<and>
         inodes w' 0 = bytes_of_string ''abcde'') \<and>
   fst (CreateMap 1 \<lparr>get_data_type = INT32, element_width = 4\<rparr>
      \<lparr>field_id = 2, field_data = Scalars (IntData [1, 2]), row_count = 2,
       mmap_dir_path = Some [''d'']\<rparr> (empty_world\<lparr>write_script := [Partial 3]\<rparr>)) =
     Inl (FailedWrite [''d'', ''1'', ''2''] 3 8) \<and>
   WriteFieldData 0 VARCHAR (Scalars (StringData [''abcd''])) 10
       (snd (sys_open [''d'', ''1'', ''2'']
          (snd (sys_create_directories [''d'', ''1'']
             (empty_world\<lparr>write_script := [Partial 2]\<rparr>))))) =
     Inr (0, snd (projr (WriteFieldData 0 VARCHAR (Scalars (StringData [''abcd''])) 10
       (snd (sys_open [''d'', ''1'', ''2'']
          (snd (sys_create_directories [''d'', ''1'']
             (empty_world\<lparr>write_script := [Partial 2]\<rparr>)))))))) \<and>
   (\<forall>p a b. fst (CreateMap 1 \<lparr>get_data_type = VARCHAR, element_width = 10\<rparr>
      \<lparr>field_id = 2, field_data = Scalars (StringData [''abcd'']), row_count = 1,
       mmap_dir_path = Some [''d'']\<rparr> (empty_world\<lparr>write_script := [Partial 2]\<rparr>)) \<noteq>
     Inl (FailedWrite p a b))"
proof -
  let ?w = "empty_world\<lparr>descriptors := [Some 0], write_script := [Partial 3]\<rparr>"
  let ?d = "Scalars (IntData [1, 2])"
  let ?r = "WriteFieldData 0 INT32 ?d 8 ?w"
  have run: "?r = Inr (3, snd (projr ?r))" and bytes: "inodes (snd (projr ?r)) 0 = [1, 0, 0]"
    by (simp_all add: eval_defs)
  have "open_inode ?w 0 = Some 0"
    by (simp add: open_inode_def empty_world_def)
  with run WriteFieldData_result [THEN conjunct1, of INT32 ?w 0 0 ?d 8 3 "snd (projr ?r)"]
  have "\<exists>bs. length bs \<le> 8 \<and> (3 :: 64 word) = of_nat (length bs) \<and>
      inodes (snd (projr ?r)) 0 = inodes ?w 0 @ bs"
    by simp
  with run bytes have one: "\<exists>w'. ?r = Inr (3, w') \<and> inodes w' 0 = [1, 0, 0]"
    by metis
  let ?v = "empty_world\<lparr>descriptors := [Some 0]\<rparr>"
  have "writes_complete ?v \<and> open_inode ?v 0 = Some 0"
    by (simp add: writes_complete_def open_inode_def empty_world_def)
  with WriteFieldData_result
    [THEN conjunct2, THEN conjunct1, of ?v 0 0 "Scalars (StringData [''ab'', ''cde''])" 20]
  have two: "\<exists>w'. WriteFieldData 0 VARCHAR (Scalars (StringData [''ab'', ''cde''])) 20 ?v =
      Inr (5, w') \<and> inodes w' 0 = bytes_of_string ''abcde''"
    by (auto simp: scalars_def string_data_def empty_world_def)
  let ?fm = "\<lparr>get_data_type = INT32, element_width = 4\<rparr>"
  let ?info = "\<lparr>field_id = 2, field_data = ?d, row_count = 2, mmap_dir_path = Some [''d'']\<rparr>"
  let ?w0 = "empty_world\<lparr>write_script := [Partial 3]\<rparr>"
  let ?wd = "snd (sys_create_directories [''d'', ''1''] ?w0)"
  let ?wo = "snd (sys_open [''d'', ''1'', ''2''] ?wd)"
  let ?ww = "snd (projr (WriteFieldData 0 INT32 ?d 8 ?wo))"
  have "CreateMap 1 ?fm ?info ?w0 = (Inl (FailedWrite [''d'', ''1'', ''2''] 3
      (4 * row_count ?info)), ?ww)"
    by (rule WriteFieldData_result [THEN conjunct2, THEN conjunct2, THEN conjunct1, rule_format,
          where mmap_dir = "[''d'']" and wd = ?wd and fd' = 0 and wo = ?wo])
      (simp add: eval_defs)
  then have three: "fst (CreateMap 1 ?fm ?info ?w0) = Inl (FailedWrite [''d'', ''1'', ''2''] 3 8)"
    by simp
  let ?gm = "\<lparr>get_data_type = VARCHAR, element_width = 10\<rparr>"
  let ?e = "Scalars (StringData [''abcd''])"
  let ?jnfo = "\<lparr>field_id = 2, field_data = ?e, row_count = 1, mmap_dir_path = Some [''d'']\<rparr>"
  let ?v0 = "empty_world\<lparr>write_script := [Partial 2]\<rparr>"
  let ?vd = "snd (sys_create_directories [''d'', ''1''] ?v0)"
  let ?vo = "snd (sys_open [''d'', ''1'', ''2''] ?vd)"
  let ?vw = "snd (projr (WriteFieldData 0 VARCHAR ?e 10 ?vo))"
  have short: "WriteFieldData 0 VARCHAR ?e 10 ?vo = Inr (0, ?vw)"
    by (simp add: eval_defs)
  have four: "\<forall>p a b. fst (CreateMap 1 ?gm ?jnfo ?v0) \<noteq> Inl (FailedWrite p a b)"
    by (rule WriteFieldData_result [where mmap_dir' = "[''d'']"
          and filepath' = "[''d'', ''1'', ''2'']" and vd = ?vd and fd'' = 0 and vo = ?vo
          and width' = 10 and written' = 0 and vw = ?vw,
          THEN conjunct2, THEN conjunct2, THEN conjunct2, THEN mp])
      (simp add: eval_defs)
  from one two three short four show ?thesis by simp
qed

end
